theory Spec2Isabelle
  imports Main "HOL-Library.Sublist"
begin

section \<open>Python strings and dictionaries\<close>

text \<open>
  A Python \<open>str\<close> is a \<open>string\<close>: the list of the bytes of its UTF-8 encoding, which is
  what \<open>write_text(..., encoding="utf-8")\<close> puts into the file. For the ASCII names the
  generator is meant for, bytes and code points coincide.
\<close>

datatype error =
    KeyError string
  | FileExistsError "string list"
  | FileNotFoundError "string list"
  | NotADirectoryError "string list"
  | IsADirectoryError "string list"

text \<open>
  \<open>s.replace(old, new)\<close>: every non-overlapping occurrence of \<open>old\<close>, scanning from the
  left, is replaced by \<open>new\<close>; with an empty \<open>old\<close>, \<open>new\<close> is put before every
  character and at the end.
\<close>

function str_replace :: "string \<Rightarrow> string \<Rightarrow> string \<Rightarrow> string" where
  "str_replace old new [] = (if old = [] then new else [])"
| "str_replace old new (c # cs) =
     (if old = [] then new @ c # str_replace old new cs
      else if take (length old) (c # cs) = old
        then new @ str_replace old new (drop (length old) (c # cs))
      else c # str_replace old new cs)"
  by pat_completeness auto
termination
  by (relation "measure (\<lambda>(old, new, s). length s)") auto

text \<open>
  \<open>s.split(sep)\<close> for a non-empty separator: the pieces between the non-overlapping
  occurrences of \<open>sep\<close>, scanning from the left; \<open>cur\<close> collects the piece being read.
  The result always has at least one piece. (Python raises ValueError for an empty
  separator; the generator only ever passes \<open>'-'\<close>, and the guard keeps the
  recursion from looping there.)
\<close>

function str_split_from :: "string \<Rightarrow> string \<Rightarrow> string \<Rightarrow> string list" where
  "str_split_from sep cur [] = [cur]"
| "str_split_from sep cur (c # cs) =
     (if sep \<noteq> [] \<and> take (length sep) (c # cs) = sep
        then cur # str_split_from sep [] (drop (length sep) (c # cs))
      else str_split_from sep (cur @ [c]) cs)"
  by pat_completeness auto
termination
  by (relation "measure (\<lambda>(sep, cur, s). length s)") auto

definition str_split :: "string \<Rightarrow> string \<Rightarrow> string list" where
  "str_split sep s = str_split_from sep [] s"

text \<open>
  \<open>s.lower()\<close> lowers every cased code point by the Unicode tables of the Python runtime,
  which are not part of the source. The model does not fix them: every definition that
  lowers a string takes the function, \<open>str_lower\<close>, as its first argument, and nothing is
  assumed about it.
\<close>

text \<open>
  \<open>ProjectInfo = Dict[str, str]\<close>: an association list in insertion order, read through
  \<open>map_of\<close>. \<open>d[k]\<close> raises KeyError on a missing key; \<open>not d\<close> holds exactly for the
  empty dictionary.
\<close>

type_synonym project_info = "(string \<times> string) list"

definition dict_get :: "project_info \<Rightarrow> string \<Rightarrow> error + string" where
  "dict_get d k = (case map_of d k of None \<Rightarrow> Inl (KeyError k) | Some v \<Rightarrow> Inr v)"

definition bind_err :: "error + 'a \<Rightarrow> ('a \<Rightarrow> error + 'b) \<Rightarrow> error + 'b" where
  "bind_err m f = (case m of Inl e \<Rightarrow> Inl e | Inr x \<Rightarrow> f x)"

text \<open>
  The two expressions every creator derives from the name:
  \<open>project_info['name'].replace("-", "_")\<close> and \<open>project_info['name'].split('-')[-1]\<close>.
  Index \<open>-1\<close> never raises here, since \<open>split\<close> returns a non-empty list
  (lemma \<open>str_split_from_nonempty\<close> below).
\<close>

definition package_of :: "string \<Rightarrow> string" where
  "package_of name = str_replace ''-'' ''_'' name"

definition short_of :: "string \<Rightarrow> string" where
  "short_of name = last (str_split ''-'' name)"

subsection \<open>The derived identifiers as the specification words them\<close>

definition package_identifier_spec :: "string \<Rightarrow> string" where
  "package_identifier_spec name = map (\<lambda>c. if c = CHR ''-'' then CHR ''_'' else c) name"

definition short_name_spec :: "string \<Rightarrow> string" where
  "short_name_spec name =
     (if CHR ''-'' \<in> set name
      then rev (takeWhile (\<lambda>c. c \<noteq> CHR ''-'') (rev name))
      else name)"

section \<open>The file system and the console\<close>

text \<open>
  A path is the list of its components below the working directory; the empty path is
  the working directory itself, which always is a directory. \<open>base / "x"\<close> appends \<open>x\<close>
  as one component. That is what pathlib does for a plain name (\<open>plain_name\<close> below), as
  the file names of the templates and the project names the generator is meant for are
  (\<open>ErisPulse-Weather\<close>). For other names pathlib splits at \<open>/\<close>, drops empty and \<open>.\<close>
  components and lets an absolute name replace the base, and the system resolves \<open>..\<close>;
  the model does not follow these, so a statement that a build succeeds is made for plain
  names only.
\<close>

type_synonym path = "string list"

datatype node = Dir | File string

datatype errno = EEXIST | ENOENT | ENOTDIR | EISDIR

fun os_error :: "errno \<Rightarrow> path \<Rightarrow> error" where
  "os_error EEXIST p = FileExistsError p"
| "os_error ENOENT p = FileNotFoundError p"
| "os_error ENOTDIR p = NotADirectoryError p"
| "os_error EISDIR p = IsADirectoryError p"

text \<open>
  What the host's console is asked to show. The rendering (panels, the tree of the
  generated directory) belongs to the console and is not modelled.
\<close>

datatype console_msg =
    Banner
  | InfoShown "(string \<times> string) list"
  | Cancelled
  | ErrorShown error
  | ResultShown path string

record world =
  files :: "path \<Rightarrow> node option"
  written :: "path list"
  console :: "console_msg list"

text \<open>
  \<open>written\<close> lists, in order, the paths whose \<open>write_text\<close> succeeded: it is the trace
  of the writes, not something the program keeps.
\<close>

type_synonym 'a io = "world \<Rightarrow> (error + 'a) \<times> world"

definition io_return :: "'a \<Rightarrow> 'a io" where
  "io_return x w = (Inr x, w)"

definition io_of :: "error + 'a \<Rightarrow> 'a io" where
  "io_of r w = (r, w)"

definition io_bind :: "'a io \<Rightarrow> ('a \<Rightarrow> 'b io) \<Rightarrow> 'b io" where
  "io_bind m f w = (case m w of (Inl e, w') \<Rightarrow> (Inl e, w') | (Inr x, w') \<Rightarrow> f x w')"

definition console_print :: "console_msg \<Rightarrow> unit io" where
  "console_print m w = (Inr (), w\<lparr>console := console w @ [m]\<rparr>)"

definition path_join :: "path \<Rightarrow> string \<Rightarrow> path" where
  "path_join p s = p @ [s]"

definition plain_name :: "string \<Rightarrow> bool" where
  "plain_name s \<longleftrightarrow> s \<noteq> [] \<and> s \<noteq> ''.'' \<and> s \<noteq> ''..'' \<and> CHR ''/'' \<notin> set s"

text \<open>
  Path resolution: every component on the way has to be a directory. The first one
  that is missing gives ENOENT, the first one that is a file gives ENOTDIR.
\<close>

fun walk_dirs :: "(path \<Rightarrow> node option) \<Rightarrow> path \<Rightarrow> path \<Rightarrow> errno option" where
  "walk_dirs fs pre [] = None"
| "walk_dirs fs pre (c # cs) =
     (case fs (pre @ [c]) of
        None \<Rightarrow> Some ENOENT
      | Some (File x) \<Rightarrow> Some ENOTDIR
      | Some Dir \<Rightarrow> walk_dirs fs (pre @ [c]) cs)"

definition is_dir :: "(path \<Rightarrow> node option) \<Rightarrow> path \<Rightarrow> bool" where
  "is_dir fs p = (walk_dirs fs [] p = None)"

text \<open>\<open>os.mkdir(p)\<close>: the parent has to resolve to a directory and \<open>p\<close> must not exist.\<close>

definition os_mkdir :: "path \<Rightarrow> unit io" where
  "os_mkdir p w =
     (if p = [] then (Inl (FileExistsError p), w)
      else case walk_dirs (files w) [] (butlast p) of
             Some e \<Rightarrow> (Inl (os_error e p), w)
           | None \<Rightarrow>
               (case files w p of
                  Some n \<Rightarrow> (Inl (FileExistsError p), w)
                | None \<Rightarrow> (Inr (), w\<lparr>files := (files w)(p \<mapsto> Dir)\<rparr>)))"

text \<open>
  \<open>Path.mkdir(parents, exist_ok)\<close>, as pathlib writes it: try \<open>os.mkdir\<close>; on
  FileNotFoundError, if \<open>parents\<close> is set and the path has a parent, make the parent
  with \<open>parents=True, exist_ok=True\<close> and retry without \<open>parents\<close>; on any other OSError,
  swallow it only if \<open>exist_ok\<close> is set and the path is a directory.
\<close>

function path_mkdir :: "bool \<Rightarrow> bool \<Rightarrow> path \<Rightarrow> unit io" where
  "path_mkdir parents exist_ok p w =
     (case os_mkdir p w of
        (Inr u, w1) \<Rightarrow> (Inr u, w1)
      | (Inl (FileNotFoundError q), w1) \<Rightarrow>
          if \<not> parents \<or> p = [] then (Inl (FileNotFoundError q), w1)
          else (case path_mkdir True True (butlast p) w1 of
                  (Inl e, w2) \<Rightarrow> (Inl e, w2)
                | (Inr u, w2) \<Rightarrow> path_mkdir False exist_ok p w2)
      | (Inl e, w1) \<Rightarrow>
          if \<not> exist_ok \<or> \<not> is_dir (files w1) p then (Inl e, w1) else (Inr (), w1))"
  by pat_completeness auto
termination
  by (relation "measure (\<lambda>(parents, exist_ok, p, w). 2 * length p + (if parents then 1 else 0))")
     auto

declare path_mkdir.simps [simp del]

text \<open>
  \<open>Path.write_text(data)\<close> opens the file for writing, which truncates an existing file
  and creates a missing one; it never asks whether the file is there already. Opening
  a directory raises IsADirectoryError.
\<close>

definition write_text :: "path \<Rightarrow> string \<Rightarrow> unit io" where
  "write_text p data w =
     (if p = [] then (Inl (IsADirectoryError p), w)
      else case walk_dirs (files w) [] (butlast p) of
             Some e \<Rightarrow> (Inl (os_error e p), w)
           | None \<Rightarrow>
               (case files w p of
                  Some Dir \<Rightarrow> (Inl (IsADirectoryError p), w)
                | _ \<Rightarrow> (Inr (), w\<lparr>files := (files w)(p \<mapsto> File data),
                                   written := written w @ [p]\<rparr>)))"

section \<open>The templates\<close>

text \<open>
  Each template is the f-string of the source with its placeholders as arguments;
  \<open>package_of name\<close> and \<open>short_of name\<close> stand for the two inline expressions on the name.
  Bytes outside printable ASCII (the Chinese comments of the stubs) and the single quote
  are written by their codes.
\<close>

definition ModuleCreator_pyproject_text :: "string \<Rightarrow> string \<Rightarrow> string \<Rightarrow> string \<Rightarrow> string \<Rightarrow> string \<Rightarrow> string" where
  \<open>ModuleCreator_pyproject_text name version description author_name author_email homepage =
     ''[project]\<newline>'' @
     ''name = "'' @ name @ ''"\<newline>'' @
     ''version = "'' @ version @ ''"\<newline>'' @
     ''description = "'' @ description @ ''"\<newline>'' @
     ''readme = "README.md"\<newline>'' @
     ''requires-python = ">=3.9"\<newline>'' @
     ''license = { file = "LICENSE" }\<newline>'' @
     ''authors = [ { name = "'' @ author_name @ ''", email = "'' @ author_email @ ''" } ]\<newline>'' @
     ''\<newline>'' @
     ''dependencies = [\<newline>'' @
     '']\<newline>'' @
     ''\<newline>'' @
     ''[project.urls]\<newline>'' @
     ''"homepage" = "'' @ homepage @ ''"\<newline>'' @
     ''\<newline>'' @
     ''[project.entry-points."erispulse.module"]\<newline>'' @
     ''"'' @ short_of name @ ''" = "'' @ package_of name @ '':Main"\<newline>''\<close>

definition ModuleCreator_core_text :: "string \<Rightarrow> string" where
  \<open>ModuleCreator_core_text module_name =
     ''# '' @ [CHR 0xE4, CHR 0xBD, CHR 0xA0, CHR 0xE4, CHR 0xB9, CHR 0x9F, CHR 0xE5, CHR 0x8F, CHR 0xAF, CHR 0xE4, CHR 0xBB, CHR 0xA5, CHR 0xE7, CHR 0x9B, CHR 0xB4, CHR 0xE6, CHR 0x8E, CHR 0xA5, CHR 0xE5, CHR 0xAF, CHR 0xBC, CHR 0xE5, CHR 0x85, CHR 0xA5, CHR 0xE5, CHR 0xAF, CHR 0xB9, CHR 0xE5, CHR 0xBA, CHR 0x94, CHR 0xE7, CHR 0x9A, CHR 0x84, CHR 0xE6, CHR 0xA8, CHR 0xA1, CHR 0xE5, CHR 0x9D, CHR 0x97] @ ''\<newline>'' @
     ''# from ErisPulse import sdk\<newline>'' @
     ''# from ErisPulse.Core import logger, env, raiserr, adapter\<newline>'' @
     ''\<newline>'' @
     ''class Main:\<newline>'' @
     ''    def __init__(self, sdk):    # '' @ [CHR 0xE8, CHR 0xBF, CHR 0x99, CHR 0xE9, CHR 0x87, CHR 0x8C, CHR 0xE4, CHR 0xB9, CHR 0x9F, CHR 0xE5, CHR 0x8F, CHR 0xAF, CHR 0xE4, CHR 0xBB, CHR 0xA5, CHR 0xE4, CHR 0xB8, CHR 0x8D, CHR 0xE6, CHR 0x8E, CHR 0xA5, CHR 0xE5, CHR 0x8F, CHR 0x97] @ ''sdk'' @ [CHR 0xE5, CHR 0x8F, CHR 0x82, CHR 0xE6, CHR 0x95, CHR 0xB0] @ ''\<newline>'' @
     ''        self.sdk = sdk\<newline>'' @
     ''        self.env = self.sdk.env\<newline>'' @
     ''        self.logger = self.sdk.logger\<newline>'' @
     ''        \<newline>'' @
     ''        self.logger.info("'' @ module_name @ '' '' @ [CHR 0xE5, CHR 0x88, CHR 0x9D, CHR 0xE5, CHR 0xA7, CHR 0x8B, CHR 0xE5, CHR 0x8C, CHR 0x96, CHR 0xE5, CHR 0xAE, CHR 0x8C, CHR 0xE6, CHR 0x88, CHR 0x90] @ ''")\<newline>'' @
     ''        self.config = self._load_config()\<newline>'' @
     ''    \<newline>'' @
     ''    # '' @ [CHR 0xE5, CHR 0x8A, CHR 0xA0, CHR 0xE8, CHR 0xBD, CHR 0xBD, CHR 0xE9, CHR 0x85, CHR 0x8D, CHR 0xE7, CHR 0xBD, CHR 0xAE, CHR 0xE6, CHR 0x96, CHR 0xB9, CHR 0xE6, CHR 0xB3, CHR 0x95, CHR 0xEF, CHR 0xBC, CHR 0x8C, CHR 0xE4, CHR 0xBD, CHR 0xA0, CHR 0xE9, CHR 0x9C, CHR 0x80, CHR 0xE8, CHR 0xA6, CHR 0x81, CHR 0xE5, CHR 0x9C, CHR 0xA8, CHR 0xE8, CHR 0xBF, CHR 0x99, CHR 0xE9, CHR 0x87, CHR 0x8C, CHR 0xE8, CHR 0xBF, CHR 0x9B, CHR 0xE8, CHR 0xA1, CHR 0x8C, CHR 0xE5, CHR 0xBF, CHR 0x85, CHR 0xE8, CHR 0xA6, CHR 0x81, CHR 0xE7, CHR 0x9A, CHR 0x84, CHR 0xE9, CHR 0x85, CHR 0x8D, CHR 0xE7, CHR 0xBD, CHR 0xAE, CHR 0xE5, CHR 0x8A, CHR 0xA0, CHR 0xE8, CHR 0xBD, CHR 0xBD, CHR 0xE9, CHR 0x80, CHR 0xBB, CHR 0xE8, CHR 0xBE, CHR 0x91] @ ''\<newline>'' @
     ''    def _load_config(self):\<newline>'' @
     ''        _config = self.env.getConfig("'' @ module_name @ ''", {})\<newline>'' @
     ''        if _config is None:\<newline>'' @
     ''            default_config = {\<newline>'' @
     ''                "key": "value",\<newline>'' @
     ''                "key2": [1, 2, 3],\<newline>'' @
     ''                "key3": {\<newline>'' @
     ''                    "key4": "value4"\<newline>'' @
     ''                }\<newline>'' @
     ''            }\<newline>'' @
     ''            self.env.setConfig("'' @ module_name @ ''", default_config)\<newline>'' @
     ''            return default_config\<newline>'' @
     ''        return _config\<newline>'' @
     ''            \<newline>'' @
     ''    def hello(self):\<newline>'' @
     ''        self.logger.info("Hello World!")\<newline>'' @
     ''        # '' @ [CHR 0xE5, CHR 0x85, CHR 0xB6, CHR 0xE5, CHR 0xAE, CHR 0x83, CHR 0xE6, CHR 0xA8, CHR 0xA1, CHR 0xE5, CHR 0x9D, CHR 0x97, CHR 0xE5, CHR 0x8F, CHR 0xAF, CHR 0xE4, CHR 0xBB, CHR 0xA5, CHR 0xE9, CHR 0x80, CHR 0x9A, CHR 0xE8, CHR 0xBF, CHR 0x87] @ '' sdk.'' @ module_name @ ''.hello() '' @ [CHR 0xE8, CHR 0xB0, CHR 0x83, CHR 0xE7, CHR 0x94, CHR 0xA8, CHR 0xE6, CHR 0xAD, CHR 0xA4, CHR 0xE6, CHR 0x96, CHR 0xB9, CHR 0xE6, CHR 0xB3, CHR 0x95] @ ''\<newline>''\<close>

definition CLICreator_pyproject_text :: "(string \<Rightarrow> string) \<Rightarrow> string \<Rightarrow> string \<Rightarrow> string \<Rightarrow> string \<Rightarrow> string \<Rightarrow> string \<Rightarrow> string" where
  \<open>CLICreator_pyproject_text str_lower name version description author_name author_email homepage =
     ''[project]\<newline>'' @
     ''name = "'' @ name @ ''"\<newline>'' @
     ''version = "'' @ version @ ''"\<newline>'' @
     ''description = "'' @ description @ ''"\<newline>'' @
     ''readme = "README.md"\<newline>'' @
     ''requires-python = ">=3.9"\<newline>'' @
     ''license = { file = "LICENSE" }\<newline>'' @
     ''authors = [ { name = "'' @ author_name @ ''", email = "'' @ author_email @ ''" } ]\<newline>'' @
     ''\<newline>'' @
     ''dependencies = [\<newline>'' @
     ''    "ErisPulse>=2.1.6"\<newline>'' @
     '']\<newline>'' @
     ''\<newline>'' @
     ''[project.urls]\<newline>'' @
     ''"homepage" = "'' @ homepage @ ''"\<newline>'' @
     ''\<newline>'' @
     ''[project.entry-points."erispulse.cli"]\<newline>'' @
     ''"'' @ str_lower (short_of name) @ ''" = "'' @ package_of name @ '':cli_register"\<newline>''\<close>

definition CLICreator_cli_text :: "string \<Rightarrow> string \<Rightarrow> string" where
  \<open>CLICreator_cli_text command_name description =
     ''import argparse\<newline>'' @
     ''from typing import Any\<newline>'' @
     ''from rich.panel import Panel\<newline>'' @
     ''from rich.console import Console\<newline>'' @
     ''\<newline>'' @
     ''def cli_register(subparsers: Any, console: Console) -> None:\<newline>'' @
     ''    """\<newline>'' @
     ''    '' @ [CHR 0xE6, CHR 0xB3, CHR 0xA8, CHR 0xE5, CHR 0x86, CHR 0x8C, CHR 0xE8, CHR 0x87, CHR 0xAA, CHR 0xE5, CHR 0xAE, CHR 0x9A, CHR 0xE4, CHR 0xB9, CHR 0x89] @ ''CLI'' @ [CHR 0xE5, CHR 0x91, CHR 0xBD, CHR 0xE4, CHR 0xBB, CHR 0xA4] @ ''\<newline>'' @
     ''    \<newline>'' @
     ''    '' @ [CHR 0xE5, CHR 0x8F, CHR 0x82, CHR 0xE6, CHR 0x95, CHR 0xB0] @ '':\<newline>'' @
     ''        subparsers: argparse'' @ [CHR 0xE7, CHR 0x9A, CHR 0x84, CHR 0xE5, CHR 0xAD, CHR 0x90, CHR 0xE5, CHR 0x91, CHR 0xBD, CHR 0xE4, CHR 0xBB, CHR 0xA4, CHR 0xE8, CHR 0xA7, CHR 0xA3, CHR 0xE6, CHR 0x9E, CHR 0x90, CHR 0xE5, CHR 0x99, CHR 0xA8] @ ''\<newline>'' @
     ''        console: '' @ [CHR 0xE4, CHR 0xB8, CHR 0xBB] @ ''CLI'' @ [CHR 0xE6, CHR 0x8F, CHR 0x90, CHR 0xE4, CHR 0xBE, CHR 0x9B, CHR 0xE7, CHR 0x9A, CHR 0x84, CHR 0xE6, CHR 0x8E, CHR 0xA7, CHR 0xE5, CHR 0x88, CHR 0xB6, CHR 0xE5, CHR 0x8F, CHR 0xB0, CHR 0xE8, CHR 0xBE, CHR 0x93, CHR 0xE5, CHR 0x87, CHR 0xBA, CHR 0xE5, CHR 0xAE, CHR 0x9E, CHR 0xE4, CHR 0xBE, CHR 0x8B] @ ''\<newline>'' @
     ''    """\<newline>'' @
     ''    # '' @ [CHR 0xE5, CHR 0x88, CHR 0x9B, CHR 0xE5, CHR 0xBB, CHR 0xBA, CHR 0xE5, CHR 0x91, CHR 0xBD, CHR 0xE4, CHR 0xBB, CHR 0xA4, CHR 0xE8, CHR 0xA7, CHR 0xA3, CHR 0xE6, CHR 0x9E, CHR 0x90, CHR 0xE5, CHR 0x99, CHR 0xA8] @ ''\<newline>'' @
     ''    parser = subparsers.add_parser(\<newline>'' @
     ''        '' @ [CHR 0x27] @ command_name @ [CHR 0x27] @ '',  # '' @ [CHR 0xE5, CHR 0x91, CHR 0xBD, CHR 0xE4, CHR 0xBB, CHR 0xA4, CHR 0xE5, CHR 0x90, CHR 0x8D, CHR 0xE7, CHR 0xA7, CHR 0xB0] @ ''\<newline>'' @
     ''        help='' @ [CHR 0x27] @ description @ [CHR 0x27] @ ''\<newline>'' @
     ''    )\<newline>'' @
     ''    \<newline>'' @
     ''    # '' @ [CHR 0xE6, CHR 0xB7, CHR 0xBB, CHR 0xE5, CHR 0x8A, CHR 0xA0, CHR 0xE5, CHR 0x8F, CHR 0x82, CHR 0xE6, CHR 0x95, CHR 0xB0] @ ''\<newline>'' @
     ''    parser.add_argument(\<newline>'' @
     ''        '' @ [CHR 0x27] @ ''--option'' @ [CHR 0x27] @ '',\<newline>'' @
     ''        type=str,\<newline>'' @
     ''        default='' @ [CHR 0x27] @ ''default'' @ [CHR 0x27] @ '',\<newline>'' @
     ''        help='' @ [CHR 0x27, CHR 0xE9, CHR 0x80, CHR 0x89, CHR 0xE9, CHR 0xA1, CHR 0xB9, CHR 0xE6, CHR 0x8F, CHR 0x8F, CHR 0xE8, CHR 0xBF, CHR 0xB0, CHR 0x27] @ ''\<newline>'' @
     ''    )\<newline>'' @
     ''    \<newline>'' @
     ''    # '' @ [CHR 0xE5, CHR 0x91, CHR 0xBD, CHR 0xE4, CHR 0xBB, CHR 0xA4, CHR 0xE5, CHR 0xA4, CHR 0x84, CHR 0xE7, CHR 0x90, CHR 0x86, CHR 0xE5, CHR 0x87, CHR 0xBD, CHR 0xE6, CHR 0x95, CHR 0xB0] @ ''\<newline>'' @
     ''    def handle_command(args: argparse.Namespace):\<newline>'' @
     ''        try:\<newline>'' @
     ''            console.print(Panel("'' @ [CHR 0xE5, CHR 0x91, CHR 0xBD, CHR 0xE4, CHR 0xBB, CHR 0xA4, CHR 0xE5, CHR 0xBC, CHR 0x80, CHR 0xE5, CHR 0xA7, CHR 0x8B, CHR 0xE6, CHR 0x89, CHR 0xA7, CHR 0xE8, CHR 0xA1, CHR 0x8C] @ ''", style="info"))\<newline>'' @
     ''            \<newline>'' @
     ''            # '' @ [CHR 0xE4, CHR 0xBD, CHR 0xA0, CHR 0xE7, CHR 0x9A, CHR 0x84, CHR 0xE5, CHR 0x91, CHR 0xBD, CHR 0xE4, CHR 0xBB, CHR 0xA4, CHR 0xE9, CHR 0x80, CHR 0xBB, CHR 0xE8, CHR 0xBE, CHR 0x91] @ ''\<newline>'' @
     ''            console.print(f"'' @ [CHR 0xE6, CHR 0x89, CHR 0xA7, CHR 0xE8, CHR 0xA1, CHR 0x8C, CHR 0xE6, CHR 0x93, CHR 0x8D, CHR 0xE4, CHR 0xBD, CHR 0x9C, CHR 0xEF, CHR 0xBC, CHR 0x8C, CHR 0xE9, CHR 0x80, CHR 0x89, CHR 0xE9, CHR 0xA1, CHR 0xB9, CHR 0xE5, CHR 0x80, CHR 0xBC] @ '': {args.option}")\<newline>'' @
     ''            \<newline>'' @
     ''            console.print(Panel("'' @ [CHR 0xE5, CHR 0x91, CHR 0xBD, CHR 0xE4, CHR 0xBB, CHR 0xA4, CHR 0xE6, CHR 0x89, CHR 0xA7, CHR 0xE8, CHR 0xA1, CHR 0x8C, CHR 0xE5, CHR 0xAE, CHR 0x8C, CHR 0xE6, CHR 0x88, CHR 0x90] @ ''", style="success"))\<newline>'' @
     ''        except Exception as e:\<newline>'' @
     ''            console.print(Panel(f"'' @ [CHR 0xE9, CHR 0x94, CHR 0x99, CHR 0xE8, CHR 0xAF, CHR 0xAF] @ '': {e}", style="error"))\<newline>'' @
     ''            raise\<newline>'' @
     ''    \<newline>'' @
     ''    # '' @ [CHR 0xE8, CHR 0xAE, CHR 0xBE, CHR 0xE7, CHR 0xBD, CHR 0xAE, CHR 0xE5, CHR 0xA4, CHR 0x84, CHR 0xE7, CHR 0x90, CHR 0x86, CHR 0xE5, CHR 0x87, CHR 0xBD, CHR 0xE6, CHR 0x95, CHR 0xB0] @ ''\<newline>'' @
     ''    parser.set_defaults(func=handle_command)\<newline>''\<close>

definition AdapterCreator_pyproject_text :: "string \<Rightarrow> string \<Rightarrow> string \<Rightarrow> string \<Rightarrow> string \<Rightarrow> string \<Rightarrow> string" where
  \<open>AdapterCreator_pyproject_text name version description author_name author_email homepage =
     ''[project]\<newline>'' @
     ''name = "'' @ name @ ''"\<newline>'' @
     ''version = "'' @ version @ ''"\<newline>'' @
     ''description = "'' @ description @ ''"\<newline>'' @
     ''readme = "README.md"\<newline>'' @
     ''requires-python = ">=3.9"\<newline>'' @
     ''license = { file = "LICENSE" }\<newline>'' @
     ''authors = [ { name = "'' @ author_name @ ''", email = "'' @ author_email @ ''" } ]\<newline>'' @
     ''\<newline>'' @
     ''dependencies = [\<newline>'' @
     '']\<newline>'' @
     ''\<newline>'' @
     ''[project.urls]\<newline>'' @
     ''"homepage" = "'' @ homepage @ ''"\<newline>'' @
     ''\<newline>'' @
     ''[project.entry-points."erispulse.adapter"]\<newline>'' @
     ''"'' @ short_of name @ ''" = "'' @ package_of name @ '':'' @ short_of name @ ''"\<newline>''\<close>

definition AdapterCreator_core_text :: "string \<Rightarrow> string" where
  \<open>AdapterCreator_core_text adapter_name =
     ''import asyncio\<newline>'' @
     ''from typing import Optional\<newline>'' @
     ''from ErisPulse.Core import BaseAdapter\<newline>'' @
     ''# '' @ [CHR 0xE4, CHR 0xBD, CHR 0xA0, CHR 0xE4, CHR 0xB9, CHR 0x9F, CHR 0xE5, CHR 0x8F, CHR 0xAF, CHR 0xE4, CHR 0xBB, CHR 0xA5, CHR 0xE7, CHR 0x9B, CHR 0xB4, CHR 0xE6, CHR 0x8E, CHR 0xA5, CHR 0xE5, CHR 0xAF, CHR 0xBC, CHR 0xE5, CHR 0x85, CHR 0xA5, CHR 0xE5, CHR 0xAF, CHR 0xB9, CHR 0xE5, CHR 0xBA, CHR 0x94, CHR 0xE7, CHR 0x9A, CHR 0x84, CHR 0xE6, CHR 0xA8, CHR 0xA1, CHR 0xE5, CHR 0x9D, CHR 0x97] @ ''\<newline>'' @
     ''# from ErisPulse import sdk\<newline>'' @
     ''# from ErisPulse.Core import logger, env, raiserr, adapter\<newline>'' @
     ''\<newline>'' @
     ''class '' @ adapter_name @ ''(BaseAdapter):\<newline>'' @
     ''    def __init__(self, sdk):    # '' @ [CHR 0xE8, CHR 0xBF, CHR 0x99, CHR 0xE9, CHR 0x87, CHR 0x8C, CHR 0xE4, CHR 0xB9, CHR 0x9F, CHR 0xE5, CHR 0x8F, CHR 0xAF, CHR 0xE4, CHR 0xBB, CHR 0xA5, CHR 0xE4, CHR 0xB8, CHR 0x8D, CHR 0xE6, CHR 0x8E, CHR 0xA5, CHR 0xE5, CHR 0x8F, CHR 0x97] @ ''sdk'' @ [CHR 0xE5, CHR 0x8F, CHR 0x82, CHR 0xE6, CHR 0x95, CHR 0xB0] @ ''\<newline>'' @
     ''        self.sdk = sdk\<newline>'' @
     ''        self.env = self.sdk.env\<newline>'' @
     ''        self.logger = self.sdk.logger\<newline>'' @
     ''        \<newline>'' @
     ''        self.logger.info("'' @ adapter_name @ '' '' @ [CHR 0xE5, CHR 0x88, CHR 0x9D, CHR 0xE5, CHR 0xA7, CHR 0x8B, CHR 0xE5, CHR 0x8C, CHR 0x96, CHR 0xE5, CHR 0xAE, CHR 0x8C, CHR 0xE6, CHR 0x88, CHR 0x90] @ ''")\<newline>'' @
     ''        self.config = self._load_config()\<newline>'' @
     ''    \<newline>'' @
     ''    # '' @ [CHR 0xE5, CHR 0x8A, CHR 0xA0, CHR 0xE8, CHR 0xBD, CHR 0xBD, CHR 0xE9, CHR 0x85, CHR 0x8D, CHR 0xE7, CHR 0xBD, CHR 0xAE, CHR 0xE6, CHR 0x96, CHR 0xB9, CHR 0xE6, CHR 0xB3, CHR 0x95, CHR 0xEF, CHR 0xBC, CHR 0x8C, CHR 0xE4, CHR 0xBD, CHR 0xA0, CHR 0xE9, CHR 0x9C, CHR 0x80, CHR 0xE8, CHR 0xA6, CHR 0x81, CHR 0xE5, CHR 0x9C, CHR 0xA8, CHR 0xE8, CHR 0xBF, CHR 0x99, CHR 0xE9, CHR 0x87, CHR 0x8C, CHR 0xE8, CHR 0xBF, CHR 0x9B, CHR 0xE8, CHR 0xA1, CHR 0x8C, CHR 0xE5, CHR 0xBF, CHR 0x85, CHR 0xE8, CHR 0xA6, CHR 0x81, CHR 0xE7, CHR 0x9A, CHR 0x84, CHR 0xE9, CHR 0x85, CHR 0x8D, CHR 0xE7, CHR 0xBD, CHR 0xAE, CHR 0xE5, CHR 0x8A, CHR 0xA0, CHR 0xE8, CHR 0xBD, CHR 0xBD, CHR 0xE9, CHR 0x80, CHR 0xBB, CHR 0xE8, CHR 0xBE, CHR 0x91] @ ''\<newline>'' @
     ''    def _load_config(self):\<newline>'' @
     ''        _config = self.env.getConfig("'' @ adapter_name @ ''", {})\<newline>'' @
     ''        if _config is None:\<newline>'' @
     ''            default_config = {\<newline>'' @
     ''                "mode": "server",\<newline>'' @
     ''                "server": {\<newline>'' @
     ''                    "path": "/webhook",\<newline>'' @
     ''                },\<newline>'' @
     ''                "client": {\<newline>'' @
     ''                    "url": "http://127.0.0.1:8080",\<newline>'' @
     ''                    "token": ""\<newline>'' @
     ''                }\<newline>'' @
     ''            }\<newline>'' @
     ''            self.env.setConfig("'' @ adapter_name @ ''", default_config)\<newline>'' @
     ''            return default_config\<newline>'' @
     ''        return _config\<newline>'' @
     ''    \<newline>'' @
     ''    class Send(BaseAdapter.Send):\<newline>'' @
     ''        def Text(self, text: str):\<newline>'' @
     ''            return asyncio.create_task(\<newline>'' @
     ''                self._adapter.call_api(\<newline>'' @
     ''                    endpoint="/send",\<newline>'' @
     ''                    content=text,\<newline>'' @
     ''                    recvId=self._target_id,\<newline>'' @
     ''                    recvType=self._target_type\<newline>'' @
     ''                )\<newline>'' @
     ''            )\<newline>'' @
     ''            \<newline>'' @
     ''        def Image(self, file: bytes):\<newline>'' @
     ''            return asyncio.create_task(\<newline>'' @
     ''                self._adapter.call_api(\<newline>'' @
     ''                    endpoint="/send_image",\<newline>'' @
     ''                    file=file,\<newline>'' @
     ''                    recvId=self._target_id,\<newline>'' @
     ''                    recvType=self._target_type\<newline>'' @
     ''                )\<newline>'' @
     ''            )\<newline>'' @
     ''\<newline>'' @
     ''    async def call_api(self, endpoint: str, **params):\<newline>'' @
     ''        raise NotImplementedError()\<newline>'' @
     ''\<newline>'' @
     ''    async def start(self):\<newline>'' @
     ''        raise NotImplementedError()\<newline>'' @
     ''        \<newline>'' @
     ''    async def shutdown(self):\<newline>'' @
     ''        raise NotImplementedError()\<newline>''\<close>

definition AdapterCreator_converter_text :: "string \<Rightarrow> string \<Rightarrow> string" where
  \<open>AdapterCreator_converter_text adapter_name name =
     ''import time\<newline>'' @
     ''from typing import Optional\<newline>'' @
     ''\<newline>'' @
     ''class '' @ short_of name @ ''Converter:\<newline>'' @
     ''    def convert(self, raw_event: dict) -> Optional[dict]:\<newline>'' @
     ''        """'' @ [CHR 0xE5, CHR 0xB0, CHR 0x86, CHR 0xE5, CHR 0xB9, CHR 0xB3, CHR 0xE5, CHR 0x8F, CHR 0xB0, CHR 0xE5, CHR 0x8E, CHR 0x9F, CHR 0xE7, CHR 0x94, CHR 0x9F, CHR 0xE4, CHR 0xBA, CHR 0x8B, CHR 0xE4, CHR 0xBB, CHR 0xB6, CHR 0xE8, CHR 0xBD, CHR 0xAC, CHR 0xE6, CHR 0x8D, CHR 0xA2, CHR 0xE4, CHR 0xB8, CHR 0xBA] @ ''OneBot12'' @ [CHR 0xE6, CHR 0xA0, CHR 0x87, CHR 0xE5, CHR 0x87, CHR 0x86, CHR 0xE6, CHR 0xA0, CHR 0xBC, CHR 0xE5, CHR 0xBC, CHR 0x8F] @ ''"""\<newline>'' @
     ''        if not isinstance(raw_event, dict):\<newline>'' @
     ''            return None\<newline>'' @
     ''\<newline>'' @
     ''        # '' @ [CHR 0xE5, CHR 0x9F, CHR 0xBA, CHR 0xE7, CHR 0xA1, CHR 0x80, CHR 0xE4, CHR 0xBA, CHR 0x8B, CHR 0xE4, CHR 0xBB, CHR 0xB6, CHR 0xE7, CHR 0xBB, CHR 0x93, CHR 0xE6, CHR 0x9E, CHR 0x84] @ ''\<newline>'' @
     ''        onebot_event = {\<newline>'' @
     ''            "id": str(raw_event.get("event_id", "generated_id")),\<newline>'' @
     ''            "time": int(time.time()),\<newline>'' @
     ''            "type": "",  # message/notice/request/meta_event\<newline>'' @
     ''            "detail_type": "",\<newline>'' @
     ''            "platform": "'' @ adapter_name @ ''",\<newline>'' @
     ''            "self": {\<newline>'' @
     ''                "platform": "'' @ adapter_name @ ''",\<newline>'' @
     ''                "user_id": str(raw_event.get("bot_id", ""))\<newline>'' @
     ''            },\<newline>'' @
     ''            "'' @ adapter_name @ ''_raw": raw_event  # '' @ [CHR 0xE4, CHR 0xBF, CHR 0x9D, CHR 0xE7, CHR 0x95, CHR 0x99, CHR 0xE5, CHR 0x8E, CHR 0x9F, CHR 0xE5, CHR 0xA7, CHR 0x8B, CHR 0xE6, CHR 0x95, CHR 0xB0, CHR 0xE6, CHR 0x8D, CHR 0xAE] @ ''\<newline>'' @
     ''        }\<newline>'' @
     ''\<newline>'' @
     ''        # '' @ [CHR 0xE6, CHR 0xA0, CHR 0xB9, CHR 0xE6, CHR 0x8D, CHR 0xAE, CHR 0xE4, CHR 0xBA, CHR 0x8B, CHR 0xE4, CHR 0xBB, CHR 0xB6, CHR 0xE7, CHR 0xB1, CHR 0xBB, CHR 0xE5, CHR 0x9E, CHR 0x8B, CHR 0xE5, CHR 0x88, CHR 0x86, CHR 0xE5, CHR 0x8F, CHR 0x91, CHR 0xE5, CHR 0xA4, CHR 0x84, CHR 0xE7, CHR 0x90, CHR 0x86] @ ''\<newline>'' @
     ''        event_type = raw_event.get("type")\<newline>'' @
     ''        if event_type == "message":\<newline>'' @
     ''            return self._handle_message(raw_event, onebot_event)\<newline>'' @
     ''        elif event_type == "notice":\<newline>'' @
     ''            return self._handle_notice(raw_event, onebot_event)\<newline>'' @
     ''        \<newline>'' @
     ''        return None\<newline>'' @
     ''\<newline>'' @
     ''    def _handle_message(self, raw_event: dict, onebot_event: dict) -> dict:\<newline>'' @
     ''        """'' @ [CHR 0xE5, CHR 0xA4, CHR 0x84, CHR 0xE7, CHR 0x90, CHR 0x86, CHR 0xE6, CHR 0xB6, CHR 0x88, CHR 0xE6, CHR 0x81, CHR 0xAF, CHR 0xE4, CHR 0xBA, CHR 0x8B, CHR 0xE4, CHR 0xBB, CHR 0xB6] @ ''"""\<newline>'' @
     ''        onebot_event["type"] = "message"\<newline>'' @
     ''        # '' @ [CHR 0xE6, CHR 0xB7, CHR 0xBB, CHR 0xE5, CHR 0x8A, CHR 0xA0, CHR 0xE4, CHR 0xBD, CHR 0xA0, CHR 0xE7, CHR 0x9A, CHR 0x84, CHR 0xE6, CHR 0xB6, CHR 0x88, CHR 0xE6, CHR 0x81, CHR 0xAF, CHR 0xE5, CHR 0xA4, CHR 0x84, CHR 0xE7, CHR 0x90, CHR 0x86, CHR 0xE9, CHR 0x80, CHR 0xBB, CHR 0xE8, CHR 0xBE, CHR 0x91] @ ''\<newline>'' @
     ''        return onebot_event\<newline>'' @
     ''\<newline>'' @
     ''    def _handle_notice(self, raw_event: dict, onebot_event: dict) -> dict:\<newline>'' @
     ''        """'' @ [CHR 0xE5, CHR 0xA4, CHR 0x84, CHR 0xE7, CHR 0x90, CHR 0x86, CHR 0xE9, CHR 0x80, CHR 0x9A, CHR 0xE7, CHR 0x9F, CHR 0xA5, CHR 0xE4, CHR 0xBA, CHR 0x8B, CHR 0xE4, CHR 0xBB, CHR 0xB6] @ ''"""\<newline>'' @
     ''        onebot_event["type"] = "notice"\<newline>'' @
     ''        # '' @ [CHR 0xE6, CHR 0xB7, CHR 0xBB, CHR 0xE5, CHR 0x8A, CHR 0xA0, CHR 0xE4, CHR 0xBD, CHR 0xA0, CHR 0xE7, CHR 0x9A, CHR 0x84, CHR 0xE9, CHR 0x80, CHR 0x9A, CHR 0xE7, CHR 0x9F, CHR 0xA5, CHR 0xE5, CHR 0xA4, CHR 0x84, CHR 0xE7, CHR 0x90, CHR 0x86, CHR 0xE9, CHR 0x80, CHR 0xBB, CHR 0xE8, CHR 0xBE, CHR 0x91] @ ''\<newline>'' @
     ''        return onebot_event\<newline>''\<close>

definition license_text :: "string" where
  \<open>license_text  =
     ''MIT License\<newline>'' @
     ''\<newline>'' @
     ''Copyright (c) [year] [fullname]\<newline>'' @
     ''\<newline>'' @
     ''Permission is hereby granted...''\<close>

definition readme_text :: "string \<Rightarrow> string \<Rightarrow> string" where
  "readme_text name description = ''# '' @ name @ ''\<newline>\<newline>'' @ description"

text \<open>
  The dictionary lookups of an f-string happen left to right, so the first missing key is
  the one reported. A key read a second time cannot fail and reuses the value.
\<close>

definition pyproject_fields ::
  "project_info \<Rightarrow>
   (string \<Rightarrow> string \<Rightarrow> string \<Rightarrow> string \<Rightarrow> string \<Rightarrow> string \<Rightarrow> string) \<Rightarrow>
   error + string" where
  "pyproject_fields project_info template =
     bind_err (dict_get project_info ''name'') (\<lambda>name.
     bind_err (dict_get project_info ''version'') (\<lambda>version.
     bind_err (dict_get project_info ''description'') (\<lambda>description.
     bind_err (dict_get project_info ''author_name'') (\<lambda>author_name.
     bind_err (dict_get project_info ''author_email'') (\<lambda>author_email.
     bind_err (dict_get project_info ''homepage'') (\<lambda>homepage.
     Inr (template name version description author_name author_email homepage)))))))"

definition readme_content :: "project_info \<Rightarrow> error + string" where
  "readme_content project_info =
     bind_err (dict_get project_info ''name'') (\<lambda>name.
     bind_err (dict_get project_info ''description'') (\<lambda>description.
     Inr (readme_text name description)))"

section \<open>ModuleCreator\<close>

definition ModuleCreator_pyproject_content :: "project_info \<Rightarrow> error + string" where
  "ModuleCreator_pyproject_content project_info =
     pyproject_fields project_info ModuleCreator_pyproject_text"

definition ModuleCreator_create_pyproject :: "path \<Rightarrow> project_info \<Rightarrow> unit io" where
  "ModuleCreator_create_pyproject base_dir project_info =
     io_bind (io_of (ModuleCreator_pyproject_content project_info)) (\<lambda>content.
     write_text (path_join base_dir ''pyproject.toml'') content)"

definition ModuleCreator_create_readme :: "path \<Rightarrow> project_info \<Rightarrow> unit io" where
  "ModuleCreator_create_readme base_dir project_info =
     io_bind (io_of (readme_content project_info)) (\<lambda>content.
     write_text (path_join base_dir ''README.md'') content)"

definition ModuleCreator_create_license :: "path \<Rightarrow> unit io" where
  "ModuleCreator_create_license base_dir = write_text (path_join base_dir ''LICENSE'') license_text"

definition ModuleCreator_core_content :: "project_info \<Rightarrow> error + string" where
  "ModuleCreator_core_content project_info =
     bind_err (dict_get project_info ''name'') (\<lambda>name.
     let module_name = short_of name in Inr (ModuleCreator_core_text module_name))"

definition ModuleCreator_create_core_file :: "path \<Rightarrow> project_info \<Rightarrow> unit io" where
  "ModuleCreator_create_core_file module_dir project_info =
     io_bind (io_of (ModuleCreator_core_content project_info)) (\<lambda>content.
     write_text (path_join module_dir ''Core.py'') content)"

definition ModuleCreator_init_content :: "project_info \<Rightarrow> error + string" where
  "ModuleCreator_init_content project_info = Inr ''from .Core import Main''"

definition ModuleCreator_create_init_file :: "path \<Rightarrow> project_info \<Rightarrow> unit io" where
  "ModuleCreator_create_init_file module_dir project_info =
     io_bind (io_of (ModuleCreator_init_content project_info)) (\<lambda>content.
     write_text (path_join module_dir ''__init__.py'') content)"

definition ModuleCreator_create :: "path \<Rightarrow> project_info \<Rightarrow> unit io" where
  "ModuleCreator_create base_dir project_info =
     io_bind (io_of (dict_get project_info ''name'')) (\<lambda>name.
     let module_dir = path_join base_dir (package_of name) in
     io_bind (path_mkdir False False module_dir) (\<lambda>_.
     io_bind (ModuleCreator_create_pyproject base_dir project_info) (\<lambda>_.
     io_bind (ModuleCreator_create_readme base_dir project_info) (\<lambda>_.
     io_bind (ModuleCreator_create_license base_dir) (\<lambda>_.
     io_bind (ModuleCreator_create_core_file module_dir project_info) (\<lambda>_.
     ModuleCreator_create_init_file module_dir project_info))))))"

section \<open>CLICreator\<close>

definition CLICreator_pyproject_content :: "(string \<Rightarrow> string) \<Rightarrow> project_info \<Rightarrow> error + string" where
  "CLICreator_pyproject_content str_lower project_info =
     pyproject_fields project_info (CLICreator_pyproject_text str_lower)"

definition CLICreator_create_pyproject :: "(string \<Rightarrow> string) \<Rightarrow> path \<Rightarrow> project_info \<Rightarrow> unit io" where
  "CLICreator_create_pyproject str_lower base_dir project_info =
     io_bind (io_of (CLICreator_pyproject_content str_lower project_info)) (\<lambda>content.
     write_text (path_join base_dir ''pyproject.toml'') content)"

definition CLICreator_create_readme :: "path \<Rightarrow> project_info \<Rightarrow> unit io" where
  "CLICreator_create_readme base_dir project_info =
     io_bind (io_of (readme_content project_info)) (\<lambda>content.
     write_text (path_join base_dir ''README.md'') content)"

definition CLICreator_create_license :: "path \<Rightarrow> unit io" where
  "CLICreator_create_license base_dir = write_text (path_join base_dir ''LICENSE'') license_text"

definition CLICreator_cli_content :: "(string \<Rightarrow> string) \<Rightarrow> project_info \<Rightarrow> error + string" where
  "CLICreator_cli_content str_lower project_info =
     bind_err (dict_get project_info ''name'') (\<lambda>name.
     let command_name = str_lower (short_of name) in
     bind_err (dict_get project_info ''description'') (\<lambda>description.
     Inr (CLICreator_cli_text command_name description)))"

definition CLICreator_create_cli_file :: "(string \<Rightarrow> string) \<Rightarrow> path \<Rightarrow> project_info \<Rightarrow> unit io" where
  "CLICreator_create_cli_file str_lower module_dir project_info =
     io_bind (io_of (CLICreator_cli_content str_lower project_info)) (\<lambda>content.
     write_text (path_join module_dir ''cli.py'') content)"

definition CLICreator_init_content :: "project_info \<Rightarrow> error + string" where
  "CLICreator_init_content project_info = Inr ''from .cli import cli_register''"

definition CLICreator_create_init_file :: "path \<Rightarrow> project_info \<Rightarrow> unit io" where
  "CLICreator_create_init_file module_dir project_info =
     io_bind (io_of (CLICreator_init_content project_info)) (\<lambda>content.
     write_text (path_join module_dir ''__init__.py'') content)"

definition CLICreator_create :: "(string \<Rightarrow> string) \<Rightarrow> path \<Rightarrow> project_info \<Rightarrow> unit io" where
  "CLICreator_create str_lower base_dir project_info =
     io_bind (io_of (dict_get project_info ''name'')) (\<lambda>name.
     let module_dir = path_join base_dir (package_of name) in
     io_bind (path_mkdir False False module_dir) (\<lambda>_.
     io_bind (CLICreator_create_pyproject str_lower base_dir project_info) (\<lambda>_.
     io_bind (CLICreator_create_readme base_dir project_info) (\<lambda>_.
     io_bind (CLICreator_create_license base_dir) (\<lambda>_.
     io_bind (CLICreator_create_cli_file str_lower module_dir project_info) (\<lambda>_.
     CLICreator_create_init_file module_dir project_info))))))"

section \<open>AdapterCreator\<close>

definition AdapterCreator_pyproject_content :: "project_info \<Rightarrow> error + string" where
  "AdapterCreator_pyproject_content project_info =
     pyproject_fields project_info AdapterCreator_pyproject_text"

definition AdapterCreator_create_pyproject :: "path \<Rightarrow> project_info \<Rightarrow> unit io" where
  "AdapterCreator_create_pyproject base_dir project_info =
     io_bind (io_of (AdapterCreator_pyproject_content project_info)) (\<lambda>content.
     write_text (path_join base_dir ''pyproject.toml'') content)"

definition AdapterCreator_create_readme :: "path \<Rightarrow> project_info \<Rightarrow> unit io" where
  "AdapterCreator_create_readme base_dir project_info =
     io_bind (io_of (readme_content project_info)) (\<lambda>content.
     write_text (path_join base_dir ''README.md'') content)"

definition AdapterCreator_create_license :: "path \<Rightarrow> unit io" where
  "AdapterCreator_create_license base_dir = write_text (path_join base_dir ''LICENSE'') license_text"

definition AdapterCreator_core_content :: "project_info \<Rightarrow> error + string" where
  "AdapterCreator_core_content project_info =
     bind_err (dict_get project_info ''name'') (\<lambda>name.
     let adapter_name = short_of name in Inr (AdapterCreator_core_text adapter_name))"

definition AdapterCreator_create_core_file :: "path \<Rightarrow> project_info \<Rightarrow> unit io" where
  "AdapterCreator_create_core_file module_dir project_info =
     io_bind (io_of (AdapterCreator_core_content project_info)) (\<lambda>content.
     write_text (path_join module_dir ''Core.py'') content)"

definition AdapterCreator_converter_content :: "(string \<Rightarrow> string) \<Rightarrow> project_info \<Rightarrow> error + string" where
  "AdapterCreator_converter_content str_lower project_info =
     bind_err (dict_get project_info ''name'') (\<lambda>name.
     let adapter_name = str_lower (short_of name) in
     Inr (AdapterCreator_converter_text adapter_name name))"

definition AdapterCreator_create_converter_file :: "(string \<Rightarrow> string) \<Rightarrow> path \<Rightarrow> project_info \<Rightarrow> unit io" where
  "AdapterCreator_create_converter_file str_lower module_dir project_info =
     io_bind (io_of (AdapterCreator_converter_content str_lower project_info)) (\<lambda>content.
     write_text (path_join module_dir ''Converter.py'') content)"

definition AdapterCreator_init_content :: "project_info \<Rightarrow> error + string" where
  "AdapterCreator_init_content project_info =
     bind_err (dict_get project_info ''name'') (\<lambda>name.
     let adapter_name = short_of name in Inr (''from .Core import '' @ adapter_name))"

definition AdapterCreator_create_init_file :: "path \<Rightarrow> project_info \<Rightarrow> unit io" where
  "AdapterCreator_create_init_file module_dir project_info =
     io_bind (io_of (AdapterCreator_init_content project_info)) (\<lambda>content.
     write_text (path_join module_dir ''__init__.py'') content)"

definition AdapterCreator_create :: "(string \<Rightarrow> string) \<Rightarrow> path \<Rightarrow> project_info \<Rightarrow> unit io" where
  "AdapterCreator_create str_lower base_dir project_info =
     io_bind (io_of (dict_get project_info ''name'')) (\<lambda>name.
     let module_dir = path_join base_dir (package_of name) in
     io_bind (path_mkdir False False module_dir) (\<lambda>_.
     io_bind (AdapterCreator_create_pyproject base_dir project_info) (\<lambda>_.
     io_bind (AdapterCreator_create_readme base_dir project_info) (\<lambda>_.
     io_bind (AdapterCreator_create_license base_dir) (\<lambda>_.
     io_bind (AdapterCreator_create_core_file module_dir project_info) (\<lambda>_.
     io_bind (AdapterCreator_create_converter_file str_lower module_dir project_info) (\<lambda>_.
     AdapterCreator_create_init_file module_dir project_info)))))))"

section \<open>ScaffoldGenerator\<close>

datatype creator = ModuleCreator | CLICreator | AdapterCreator

definition creators :: "(string \<times> creator) list" where
  "creators = [(''module'', ModuleCreator), (''cli'', CLICreator), (''adapter'', AdapterCreator)]"

definition creators_get :: "string \<Rightarrow> error + creator" where
  "creators_get k = (case map_of creators k of None \<Rightarrow> Inl (KeyError k) | Some c \<Rightarrow> Inr c)"

fun creator_create :: "(string \<Rightarrow> string) \<Rightarrow> creator \<Rightarrow> path \<Rightarrow> project_info \<Rightarrow> unit io" where
  "creator_create str_lower ModuleCreator = ModuleCreator_create"
| "creator_create str_lower CLICreator = CLICreator_create str_lower"
| "creator_create str_lower AdapterCreator = AdapterCreator_create str_lower"

text \<open>
  The value a caller of \<open>_create_project_structure\<close> receives: the source declares and
  returns \<open>None\<close>; a list of paths is the other value the specification speaks of.
\<close>

datatype retval = PyNone | PyPaths "path list"

definition display_result :: "path \<Rightarrow> string \<Rightarrow> unit io" where
  "display_result base_dir name = console_print (ResultShown base_dir name)"

definition create_project_structure ::
  "(string \<Rightarrow> string) \<Rightarrow> path \<Rightarrow> project_info \<Rightarrow> retval io" where
  "create_project_structure str_lower output_dir project_info =
     io_bind (io_of (dict_get project_info ''name'')) (\<lambda>name.
     let base_dir = path_join output_dir name in
     io_bind (path_mkdir True True base_dir) (\<lambda>_.
     io_bind (io_of (dict_get project_info ''type'')) (\<lambda>project_type.
     io_bind (io_of (creators_get project_type)) (\<lambda>creator.
     io_bind (creator_create str_lower creator base_dir project_info) (\<lambda>_.
     io_bind (display_result base_dir name) (\<lambda>_.
     io_return PyNone))))))"

text \<open>
  The prompt stage. \<open>Prompt.ask\<close> and \<open>Confirm.ask\<close> belong to the console library; the
  record holds what they returned (defaults already filled in, the type one of the
  three choices the prompt offers).
\<close>

record answers =
  ans_type :: string
  ans_name :: string
  ans_version :: string
  ans_description :: string
  ans_author_name :: string
  ans_author_email :: string
  ans_homepage :: string
  ans_confirm :: bool

definition mk_info ::
  "string \<Rightarrow> string \<Rightarrow> string \<Rightarrow> string \<Rightarrow> string \<Rightarrow> string \<Rightarrow> string \<Rightarrow> project_info" where
  "mk_info project_type name version description author_name author_email homepage =
     [(''type'', project_type), (''name'', name), (''version'', version),
      (''description'', description), (''author_name'', author_name),
      (''author_email'', author_email), (''homepage'', homepage)]"

definition collect_project_info :: "answers \<Rightarrow> project_info io" where
  "collect_project_info a =
     (let info = mk_info (ans_type a) (ans_name a) (ans_version a) (ans_description a)
                   (ans_author_name a) (ans_author_email a) (ans_homepage a) in
      io_bind (console_print (InfoShown info)) (\<lambda>_.
      if \<not> ans_confirm a then io_return [] else io_return info))"

definition handle_scaffold :: "(string \<Rightarrow> string) \<Rightarrow> path \<Rightarrow> answers \<Rightarrow> unit io" where
  "handle_scaffold str_lower output a w =
     (case
        io_bind (console_print Banner) (\<lambda>_.
        io_bind (collect_project_info a) (\<lambda>project_info.
        if project_info = [] then console_print Cancelled
        else io_bind (create_project_structure str_lower output project_info) (\<lambda>_. io_return ()))) w
      of (Inl e, w') \<Rightarrow> (Inl e, snd (console_print (ErrorShown e) w'))
       | (Inr u, w') \<Rightarrow> (Inr u, w'))"

section \<open>The manifest and the package as the specification reads them\<close>

text \<open>
  The entry-point table that closes a manifest: the group line and the one registration
  \<open>"key" = "target"\<close>, where the target is \<open>package:symbol\<close>.
\<close>

definition registration_entry :: "string \<Rightarrow> string \<Rightarrow> string \<Rightarrow> string" where
  \<open>registration_entry grp key target =
     ''[project.entry-points."erispulse.'' @ grp @ ''"]\<newline>'' @
     ''"'' @ key @ ''" = "'' @ target @ ''"\<newline>''\<close>

fun creator_pyproject_content ::
  "(string \<Rightarrow> string) \<Rightarrow> creator \<Rightarrow> project_info \<Rightarrow> error + string" where
  "creator_pyproject_content str_lower ModuleCreator = ModuleCreator_pyproject_content"
| "creator_pyproject_content str_lower CLICreator = CLICreator_pyproject_content str_lower"
| "creator_pyproject_content str_lower AdapterCreator = AdapterCreator_pyproject_content"

text \<open>
  Each creator class has its own \<open>_create_pyproject\<close> and \<open>_create_init_file\<close>; the
  two functions below name the content the creator of a given class writes.
\<close>

fun creator_init_content :: "creator \<Rightarrow> project_info \<Rightarrow> error + string" where
  "creator_init_content ModuleCreator = ModuleCreator_init_content"
| "creator_init_content CLICreator = CLICreator_init_content"
| "creator_init_content AdapterCreator = AdapterCreator_init_content"

fun entry_group :: "creator \<Rightarrow> string" where
  "entry_group ModuleCreator = ''module''"
| "entry_group CLICreator = ''cli''"
| "entry_group AdapterCreator = ''adapter''"

fun entry_symbol_spec :: "creator \<Rightarrow> string \<Rightarrow> string" where
  "entry_symbol_spec ModuleCreator name = ''Main''"
| "entry_symbol_spec CLICreator name = ''cli_register''"
| "entry_symbol_spec AdapterCreator name = short_name_spec name"

fun entry_key_spec :: "(string \<Rightarrow> string) \<Rightarrow> creator \<Rightarrow> string \<Rightarrow> string" where
  "entry_key_spec str_lower CLICreator name = str_lower (short_name_spec name)"
| "entry_key_spec str_lower ModuleCreator name = short_name_spec name"
| "entry_key_spec str_lower AdapterCreator name = short_name_spec name"

text \<open>The line of the stub file that defines the symbol the entry point names.\<close>

fun symbol_definition :: "creator \<Rightarrow> string \<Rightarrow> string" where
  "symbol_definition ModuleCreator name = ''class Main:''"
| "symbol_definition CLICreator name = ''def cli_register(''"
| "symbol_definition AdapterCreator name = ''class '' @ short_name_spec name @ ''(BaseAdapter):''"

fun stub_module :: "creator \<Rightarrow> string" where
  "stub_module ModuleCreator = ''Core''"
| "stub_module CLICreator = ''cli''"
| "stub_module AdapterCreator = ''Core''"

text \<open>
  Writing a list of files in order, stopping at the first failure, and the file system
  that results when every write succeeds.
\<close>

fun write_all :: "(path \<times> string) list \<Rightarrow> unit io" where
  "write_all [] = io_return ()"
| "write_all ((p, data) # rest) = io_bind (write_text p data) (\<lambda>_. write_all rest)"

fun apply_writes :: "(path \<Rightarrow> node option) \<Rightarrow> (path \<times> string) list \<Rightarrow> (path \<Rightarrow> node option)" where
  "apply_writes fs [] = fs"
| "apply_writes fs ((p, data) # rest) = apply_writes (fs(p \<mapsto> File data)) rest"

text \<open>
  The template set of a creator: the files it writes, in the order it writes them, each
  with its content. The paths and contents are built from the package identifier and the
  short name as the specification words them.
\<close>

fun template_set ::
  "(string \<Rightarrow> string) \<Rightarrow> creator \<Rightarrow> path \<Rightarrow> string \<Rightarrow> string \<Rightarrow> string \<Rightarrow> string \<Rightarrow> string \<Rightarrow> string \<Rightarrow>
   (path \<times> string) list" where
  "template_set str_lower ModuleCreator base_dir name version description author_name author_email homepage =
     [(base_dir @ [''pyproject.toml''],
         ModuleCreator_pyproject_text name version description author_name author_email homepage),
      (base_dir @ [''README.md''], readme_text name description),
      (base_dir @ [''LICENSE''], license_text),
      (base_dir @ [package_identifier_spec name, ''Core.py''],
         ModuleCreator_core_text (short_name_spec name)),
      (base_dir @ [package_identifier_spec name, ''__init__.py''], ''from .Core import Main'')]"
| "template_set str_lower CLICreator base_dir name version description author_name author_email homepage =
     [(base_dir @ [''pyproject.toml''],
         CLICreator_pyproject_text str_lower name version description author_name author_email homepage),
      (base_dir @ [''README.md''], readme_text name description),
      (base_dir @ [''LICENSE''], license_text),
      (base_dir @ [package_identifier_spec name, ''cli.py''],
         CLICreator_cli_text (str_lower (short_name_spec name)) description),
      (base_dir @ [package_identifier_spec name, ''__init__.py''], ''from .cli import cli_register'')]"
| "template_set str_lower AdapterCreator base_dir name version description author_name author_email homepage =
     [(base_dir @ [''pyproject.toml''],
         AdapterCreator_pyproject_text name version description author_name author_email homepage),
      (base_dir @ [''README.md''], readme_text name description),
      (base_dir @ [''LICENSE''], license_text),
      (base_dir @ [package_identifier_spec name, ''Core.py''],
         AdapterCreator_core_text (short_name_spec name)),
      (base_dir @ [package_identifier_spec name, ''Converter.py''],
         AdapterCreator_converter_text (str_lower (short_name_spec name)) name),
      (base_dir @ [package_identifier_spec name, ''__init__.py''],
         ''from .Core import '' @ short_name_spec name)]"

section \<open>Examples\<close>

text \<open>
  What \<open>str.lower\<close> does to ASCII text: the letters \<open>A\<close> to \<open>Z\<close> become \<open>a\<close> to \<open>z\<close> and every
  other ASCII character is kept. The examples, whose names are ASCII, run with it.
\<close>

definition ascii_lower_char :: "char \<Rightarrow> char" where
  "ascii_lower_char c =
     (let n = (of_char c :: nat) in if 65 \<le> n \<and> n \<le> 90 then char_of (n + 32) else c)"

definition ascii_lower :: "string \<Rightarrow> string" where
  "ascii_lower s = map ascii_lower_char s"

text \<open>
  An empty working directory; one where \<open>proj/\<close> already holds a file of the user's; and
  one where \<open>proj/\<close> already holds the package directory, as after an earlier build.
\<close>

definition empty_world :: world where
  "empty_world = \<lparr>files = Map.empty, written = [], console = []\<rparr>"

definition used_world :: world where
  "used_world =
     \<lparr>files = [[''proj''] \<mapsto> Dir, [''proj'', ''README.md''] \<mapsto> File ''my notes''],
      written = [], console = []\<rparr>"

definition built_world :: world where
  "built_world =
     \<lparr>files = [[''proj''] \<mapsto> Dir, [''proj'', ''proj''] \<mapsto> Dir],
      written = [], console = []\<rparr>"

section \<open>Properties of the string operations\<close>

lemma str_replace_hyphen:
  "str_replace ''-'' ''_'' s = map (\<lambda>c. if c = CHR ''-'' then CHR ''_'' else c) s"
  by (induction s) simp_all

lemma str_split_from_nonempty: "str_split_from sep cur s \<noteq> []"
  by (induction sep cur s rule: str_split_from.induct) simp_all

lemma str_split_from_hyphen_last:
  "last (str_split_from ''-'' cur s) =
     (if CHR ''-'' \<in> set s then rev (takeWhile (\<lambda>c. c \<noteq> CHR ''-'') (rev s)) else cur @ s)"
proof (induction s arbitrary: cur)
  case Nil
  show ?case by simp
next
  case (Cons c cs)
  show ?case
  proof (cases "c = CHR ''-''")
    case True
    then show ?thesis
      using Cons.IH [of "[]"] str_split_from_nonempty [of "''-''" "[]" cs]
      by (auto simp: takeWhile_append)
  next
    case False
    then show ?thesis
      using Cons.IH [of "cur @ [c]"]
      by (auto simp: takeWhile_append)
  qed
qed

lemma short_of_spec: "short_of name = short_name_spec name"
  by (simp add: short_of_def short_name_spec_def str_split_def str_split_from_hyphen_last)

lemma package_of_spec: "package_of name = package_identifier_spec name"
  by (simp add: package_of_def package_identifier_spec_def str_replace_hyphen)

section \<open>Properties of the file system operations\<close>

lemma io_bind_Inr:
  "io_bind m f w = (Inr y, w') \<longleftrightarrow> (\<exists>x w1. m w = (Inr x, w1) \<and> f x w1 = (Inr y, w'))"
  by (auto simp: io_bind_def split: prod.splits sum.splits)

lemma io_of_Inr [simp]: "io_of r w = (Inr x, w') \<longleftrightarrow> r = Inr x \<and> w' = w"
  by (auto simp: io_of_def)

lemma walk_dirs_None_iff:
  "walk_dirs fs pre cs = None \<longleftrightarrow> (\<forall>k. 0 < k \<and> k \<le> length cs \<longrightarrow> fs (pre @ take k cs) = Some Dir)"
proof (induction cs arbitrary: pre)
  case Nil
  show ?case by simp
next
  case (Cons c cs)
  show ?case
  proof (cases "fs (pre @ [c])")
    case None
    then show ?thesis by (auto intro!: exI [of _ 1])
  next
    case (Some n)
    show ?thesis
    proof (cases n)
      case Dir
      have "(\<forall>k. 0 < k \<and> k \<le> Suc (length cs) \<longrightarrow> fs (pre @ take k (c # cs)) = Some Dir)
          \<longleftrightarrow> (\<forall>k. 0 < k \<and> k \<le> length cs \<longrightarrow> fs ((pre @ [c]) @ take k cs) = Some Dir)"
        (is "?L \<longleftrightarrow> ?R")
      proof
        assume l: ?L
        show ?R
        proof (intro allI impI)
          fix k assume "0 < k \<and> k \<le> length cs"
          then show "fs ((pre @ [c]) @ take k cs) = Some Dir" using l [rule_format, of "Suc k"] by simp
        qed
      next
        assume r: ?R
        show ?L
        proof (intro allI impI)
          fix k assume k: "0 < k \<and> k \<le> Suc (length cs)"
          show "fs (pre @ take k (c # cs)) = Some Dir"
          proof (cases k)
            case 0 with k show ?thesis by simp
          next
            case (Suc j)
            show ?thesis
            proof (cases j)
              case 0 with Suc Some Dir show ?thesis by simp
            next
              case (Suc i)
              with \<open>k = Suc j\<close> k r [rule_format, of j] show ?thesis by simp
            qed
          qed
        qed
      qed
      with Some Dir Cons.IH [of "pre @ [c]"] show ?thesis by simp
    next
      case (File x)
      with Some show ?thesis by (auto intro!: exI [of _ 1])
    qed
  qed
qed

lemma is_dir_iff: "is_dir fs p \<longleftrightarrow> (\<forall>q. prefix q p \<and> q \<noteq> [] \<longrightarrow> fs q = Some Dir)"
proof -
  have "(\<forall>k. 0 < k \<and> k \<le> length p \<longrightarrow> fs (take k p) = Some Dir)
     \<longleftrightarrow> (\<forall>q. prefix q p \<and> q \<noteq> [] \<longrightarrow> fs q = Some Dir)" (is "?L \<longleftrightarrow> ?R")
  proof
    assume l: ?L
    show ?R
    proof (intro allI impI)
      fix q assume q: "prefix q p \<and> q \<noteq> []"
      then obtain r where "p = q @ r" by (auto simp: prefix_def)
      with q l [rule_format, of "length q"] show "fs q = Some Dir" by simp
    qed
  next
    assume r: ?R
    show ?L
    proof (intro allI impI)
      fix k assume "0 < k \<and> k \<le> length p"
      then have "prefix (take k p) p \<and> take k p \<noteq> []"
        by (cases p) (auto simp: take_is_prefix)
      then show "fs (take k p) = Some Dir"
        using r by blast
    qed
  qed
  then show ?thesis by (simp add: is_dir_def walk_dirs_None_iff)
qed

lemma os_mkdir_Inr:
  "os_mkdir p w = (Inr u, w') \<longleftrightarrow>
     p \<noteq> [] \<and> is_dir (files w) (butlast p) \<and> files w p = None \<and>
     w' = w\<lparr>files := (files w)(p \<mapsto> Dir)\<rparr>"
  by (auto simp: os_mkdir_def is_dir_def split: option.splits)

lemma os_mkdir_Inl: "os_mkdir p w = (Inl e, w') \<Longrightarrow> w' = w"
  by (auto simp: os_mkdir_def split: option.splits if_splits)

lemma os_mkdir_exists:
  "files w p \<noteq> None \<Longrightarrow> is_dir (files w) (butlast p) \<Longrightarrow> os_mkdir p w = (Inl (FileExistsError p), w)"
  by (auto simp: os_mkdir_def is_dir_def split: option.splits)

lemma os_mkdir_exists_fails: "files w p \<noteq> None \<Longrightarrow> \<exists>e. os_mkdir p w = (Inl e, w)"
  by (auto simp: os_mkdir_def split: option.splits)

lemma path_mkdir_plain: "path_mkdir False False p w = os_mkdir p w"
  by (subst path_mkdir.simps) (auto split: prod.splits sum.splits error.splits)

lemma is_dir_root [simp]: "is_dir fs []"
  by (simp add: is_dir_def)

lemma is_dir_butlast: "is_dir fs p \<Longrightarrow> is_dir fs (butlast p)"
  by (auto simp: is_dir_iff dest: prefix_order.trans [OF _ prefixeq_butlast])

lemma is_dir_node: "is_dir fs p \<Longrightarrow> p \<noteq> [] \<Longrightarrow> fs p = Some Dir"
  by (auto simp: is_dir_iff)

lemma path_mkdir_existing: "is_dir (files w) p \<Longrightarrow> path_mkdir True True p w = (Inr (), w)"
proof (cases "p = []")
  case True
  then show ?thesis by (subst path_mkdir.simps) (simp add: os_mkdir_def)
next
  case False
  assume d: "is_dir (files w) p"
  with False have "os_mkdir p w = (Inl (FileExistsError p), w)"
    by (intro os_mkdir_exists) (auto dest: is_dir_node is_dir_butlast)
  with d show ?thesis by (subst path_mkdir.simps) simp
qed

lemma is_dir_snoc: "is_dir fs (p @ [c]) \<longleftrightarrow> is_dir fs p \<and> fs (p @ [c]) = Some Dir"
  by (auto simp: is_dir_iff)

lemma is_dir_upd_other: "\<not> prefix p d \<Longrightarrow> is_dir (fs(p \<mapsto> n)) d = is_dir fs d"
  by (auto simp: is_dir_iff)

lemma is_dir_upd_Dir: "is_dir fs d \<Longrightarrow> is_dir (fs(p \<mapsto> Dir)) d"
  by (auto simp: is_dir_iff)

lemma is_dir_created: "p \<noteq> [] \<Longrightarrow> is_dir fs (butlast p) \<Longrightarrow> is_dir (fs(p \<mapsto> Dir)) p"
  using is_dir_snoc [of "fs(p \<mapsto> Dir)" "butlast p" "last p"] by (simp add: is_dir_upd_Dir)

lemma path_mkdir_frame:
  "path_mkdir pa ex p w = (r, w') \<Longrightarrow>
     written w' = written w \<and> console w' = console w \<and>
     (\<forall>q. \<not> prefix q p \<longrightarrow> files w' q = files w q)"
proof (induction pa ex p w arbitrary: r w' rule: path_mkdir.induct)
  case (1 parents exist_ok p w)
  show ?case
  proof (cases "os_mkdir p w")
    case (Pair r1 w1)
    show ?thesis
    proof (cases r1)
      case (Inr u)
      with Pair "1.prems" have "r = Inr u" "w' = w1"
        by (subst (asm) path_mkdir.simps, simp)+
      with Pair Inr show ?thesis by (auto simp: os_mkdir_Inr)
    next
      case (Inl e)
      with Pair have w1: "w1 = w" by (auto dest: os_mkdir_Inl)
      show ?thesis
      proof (cases "\<exists>q. e = FileNotFoundError q \<and> parents \<and> p \<noteq> []")
        case False
        with Pair Inl w1 "1.prems" have "w' = w"
          by (subst (asm) path_mkdir.simps) (auto split: error.splits if_splits)
        then show ?thesis by simp
      next
        case True
        then obtain q where e: "e = FileNotFoundError q" and pa: "parents" and ne: "p \<noteq> []" by blast
        obtain r2 w2 where p2: "path_mkdir True True (butlast p) w1 = (r2, w2)" by (cases "path_mkdir True True (butlast p) w1")
        have f2: "written w2 = written w1 \<and> console w2 = console w1 \<and>
            (\<forall>q. \<not> prefix q (butlast p) \<longrightarrow> files w2 q = files w1 q)"
          using "1.IH"(1) [OF Pair [symmetric] Inl e _ p2] pa ne by simp
        have f2': "\<forall>q. \<not> prefix q p \<longrightarrow> files w2 q = files w1 q"
          using f2 prefix_order.trans [OF _ prefixeq_butlast] by blast
        show ?thesis
        proof (cases r2)
          case (Inl e2)
          with Pair \<open>r1 = Inl e\<close> e pa ne p2 "1.prems" have "w' = w2"
            by (subst (asm) path_mkdir.simps) simp
          with f2 f2' w1 show ?thesis by simp
        next
          case (Inr u2)
          with Pair \<open>r1 = Inl e\<close> e pa ne p2 "1.prems"
          have p3: "path_mkdir False exist_ok p w2 = (r, w')"
            by (subst (asm) path_mkdir.simps) simp
          have "written w' = written w2 \<and> console w' = console w2 \<and>
            (\<forall>q. \<not> prefix q p \<longrightarrow> files w' q = files w2 q)"
            using "1.IH"(2) [OF Pair [symmetric] \<open>r1 = Inl e\<close> e _ p2 [symmetric] Inr p3] pa ne by simp
          with f2 f2' w1 show ?thesis by simp
        qed
      qed
    qed
  qed
qed

lemma path_mkdir_Inr_is_dir: "path_mkdir pa ex p w = (Inr u, w') \<Longrightarrow> is_dir (files w') p"
proof (induction pa ex p w arbitrary: u w' rule: path_mkdir.induct)
  case (1 parents exist_ok p w)
  show ?case
  proof (cases "os_mkdir p w")
    case (Pair r1 w1)
    show ?thesis
    proof (cases r1)
      case (Inr u1)
      with Pair "1.prems" have "w' = w1"
        by (subst (asm) path_mkdir.simps) simp
      with Pair Inr have "p \<noteq> []" "is_dir (files w) (butlast p)" "files w' = (files w)(p \<mapsto> Dir)"
        by (auto simp: os_mkdir_Inr)
      then show ?thesis
        using is_dir_created [of p "files w"] by metis
    next
      case (Inl e)
      with Pair have w1: "w1 = w" by (auto dest: os_mkdir_Inl)
      show ?thesis
      proof (cases "\<exists>q. e = FileNotFoundError q")
        case False
        with Pair Inl w1 "1.prems" show ?thesis
          by (subst (asm) path_mkdir.simps) (auto split: error.splits if_splits)
      next
        case True
        then obtain q where e: "e = FileNotFoundError q" by blast
        with Pair Inl "1.prems" have pa: "parents" and ne: "p \<noteq> []"
          by (subst (asm) path_mkdir.simps, auto split: if_splits)+
        obtain r2 w2 where p2: "path_mkdir True True (butlast p) w1 = (r2, w2)" by (cases "path_mkdir True True (butlast p) w1")
        show ?thesis
        proof (cases r2)
          case (Inl e2)
          with Pair \<open>r1 = Inl e\<close> e pa ne p2 "1.prems" show ?thesis
            by (subst (asm) path_mkdir.simps) simp
        next
          case (Inr u2)
          with Pair \<open>r1 = Inl e\<close> e pa ne p2 "1.prems"
          have p3: "path_mkdir False exist_ok p w2 = (Inr u, w')"
            by (subst (asm) path_mkdir.simps) simp
          show ?thesis
            using "1.IH"(2) [OF Pair [symmetric] \<open>r1 = Inl e\<close> e _ p2 [symmetric] Inr p3] pa ne by simp
        qed
      qed
    qed
  qed
qed

lemma os_error_not_KeyError: "os_error x p \<noteq> KeyError k"
  by (cases x) simp_all

lemma os_mkdir_not_KeyError: "os_mkdir p w = (Inl e, w') \<Longrightarrow> e \<noteq> KeyError k"
  by (auto simp: os_mkdir_def os_error_not_KeyError split: if_splits option.splits)

lemma path_mkdir_not_KeyError: "path_mkdir pa ex p w = (Inl e, w') \<Longrightarrow> e \<noteq> KeyError k"
proof (induction pa ex p w arbitrary: e w' rule: path_mkdir.induct)
  case (1 parents exist_ok p w)
  show ?case
  proof (cases "os_mkdir p w")
    case (Pair r1 w1)
    show ?thesis
    proof (cases r1)
      case (Inr u)
      with Pair "1.prems" show ?thesis
        by (subst (asm) path_mkdir.simps) simp
    next
      case (Inl e1)
      with Pair have k1: "e1 \<noteq> KeyError k" by (auto dest: os_mkdir_not_KeyError)
      show ?thesis
      proof (cases "\<exists>q. e1 = FileNotFoundError q \<and> parents \<and> p \<noteq> []")
        case False
        with Pair Inl "1.prems" have "e = e1"
          by (subst (asm) path_mkdir.simps) (auto split: error.splits if_splits)
        with k1 show ?thesis by simp
      next
        case True
        then obtain q where e1: "e1 = FileNotFoundError q" and pa: "parents" and ne: "p \<noteq> []"
          by blast
        obtain r2 w2 where p2: "path_mkdir True True (butlast p) w1 = (r2, w2)"
          by (cases "path_mkdir True True (butlast p) w1")
        show ?thesis
        proof (cases r2)
          case (Inl e2)
          with Pair \<open>r1 = Inl e1\<close> e1 pa ne p2 "1.prems" have "e = e2"
            by (subst (asm) path_mkdir.simps) simp
          with "1.IH"(1) [OF Pair [symmetric] \<open>r1 = Inl e1\<close> e1 _ p2 [unfolded Inl]] pa ne
          show ?thesis by simp
        next
          case (Inr u2)
          with Pair \<open>r1 = Inl e1\<close> e1 pa ne p2 "1.prems"
          have p3: "path_mkdir False exist_ok p w2 = (Inl e, w')"
            by (subst (asm) path_mkdir.simps) simp
          show ?thesis
            using "1.IH"(2) [OF Pair [symmetric] \<open>r1 = Inl e1\<close> e1 _ p2 [symmetric] Inr p3] pa ne
            by simp
        qed
      qed
    qed
  qed
qed

lemma write_text_Inr:
  "write_text p c w = (Inr u, w') \<longleftrightarrow>
     p \<noteq> [] \<and> is_dir (files w) (butlast p) \<and> files w p \<noteq> Some Dir \<and>
     w' = w\<lparr>files := (files w)(p \<mapsto> File c), written := written w @ [p]\<rparr>"
  by (auto simp: write_text_def is_dir_def split: option.splits node.splits)

lemma write_text_Inl: "write_text p c w = (Inl e, w') \<Longrightarrow> w' = w"
  by (auto simp: write_text_def split: option.splits if_splits node.splits)

section \<open>Generated contents\<close>

lemma dict_get_mk_info:
  "dict_get (mk_info ty name version description author_name author_email homepage) ''type'' = Inr ty"
  "dict_get (mk_info ty name version description author_name author_email homepage) ''name'' = Inr name"
  "dict_get (mk_info ty name version description author_name author_email homepage) ''version'' = Inr version"
  "dict_get (mk_info ty name version description author_name author_email homepage) ''description'' = Inr description"
  "dict_get (mk_info ty name version description author_name author_email homepage) ''author_name'' = Inr author_name"
  "dict_get (mk_info ty name version description author_name author_email homepage) ''author_email'' = Inr author_email"
  "dict_get (mk_info ty name version description author_name author_email homepage) ''homepage'' = Inr homepage"
  by (simp_all add: dict_get_def mk_info_def)

lemma bind_err_Inr [simp]: "bind_err (Inr x) f = f x"
  by (simp add: bind_err_def)

lemma bind_err_Inl [simp]: "bind_err (Inl e) f = Inl e"
  by (simp add: bind_err_def)

lemma pyproject_fields_mk_info:
  "pyproject_fields (mk_info ty name version description author_name author_email homepage) template =
     Inr (template name version description author_name author_email homepage)"
  by (simp add: pyproject_fields_def dict_get_mk_info)

lemma ex_head_here: "\<exists>head. (e :: 'a list) = head @ e"
  by simp

lemma ex_head_later: "\<exists>head. ys = head @ e \<Longrightarrow> \<exists>head. zs @ ys = head @ (e :: 'a list)"
  by (metis append_assoc)

lemma ModuleCreator_pyproject_tail:
  \<open>\<exists>head. ModuleCreator_pyproject_text name version description author_name author_email homepage =
     head @ registration_entry ''module'' (short_of name) (package_of name @ '':Main'')\<close>
proof -
  have e: \<open>registration_entry ''module'' (short_of name) (package_of name @ '':Main'') =
      ''[project.entry-points."erispulse.module"]\<newline>'' @
      ''"'' @ short_of name @ ''" = "'' @ package_of name @ '':Main"\<newline>''\<close>
    by (simp add: registration_entry_def)
  show ?thesis
    unfolding e ModuleCreator_pyproject_text_def
    by (rule ex_head_here | rule ex_head_later)+
qed

lemma CLICreator_pyproject_tail:
  \<open>\<exists>head. CLICreator_pyproject_text str_lower name version description author_name author_email homepage =
     head @ registration_entry ''cli'' (str_lower (short_of name)) (package_of name @ '':cli_register'')\<close>
proof -
  have e: \<open>registration_entry ''cli'' (str_lower (short_of name)) (package_of name @ '':cli_register'') =
      ''[project.entry-points."erispulse.cli"]\<newline>'' @
      ''"'' @ str_lower (short_of name) @ ''" = "'' @ package_of name @ '':cli_register"\<newline>''\<close>
    by (simp add: registration_entry_def)
  show ?thesis
    unfolding e CLICreator_pyproject_text_def
    by (rule ex_head_here | rule ex_head_later)+
qed

lemma AdapterCreator_pyproject_tail:
  \<open>\<exists>head. AdapterCreator_pyproject_text name version description author_name author_email homepage =
     head @ registration_entry ''adapter'' (short_of name) (package_of name @ '':'' @ short_of name)\<close>
proof -
  have e: \<open>registration_entry ''adapter'' (short_of name) (package_of name @ '':'' @ short_of name) =
      ''[project.entry-points."erispulse.adapter"]\<newline>'' @
      ''"'' @ short_of name @ ''" = "'' @ package_of name @ '':'' @ short_of name @ ''"\<newline>''\<close>
    by (simp add: registration_entry_def)
  show ?thesis
    unfolding e AdapterCreator_pyproject_text_def
    by (rule ex_head_here | rule ex_head_later)+
qed

lemma creator_pyproject_tail:
  "\<exists>head. creator_pyproject_content str_lower c (mk_info ty name version description author_name author_email homepage) =
      Inr (head @ registration_entry (entry_group c) (entry_key_spec str_lower c name)
                    (package_identifier_spec name @ '':'' @ entry_symbol_spec c name))"
  using CLICreator_pyproject_tail [of str_lower name version description author_name author_email homepage]
    ModuleCreator_pyproject_tail [of name version description author_name author_email homepage]
    AdapterCreator_pyproject_tail [of name version description author_name author_email homepage]
  by (cases c)
     (simp_all add: CLICreator_pyproject_content_def ModuleCreator_pyproject_content_def
      AdapterCreator_pyproject_content_def pyproject_fields_mk_info short_of_spec package_of_spec)

section \<open>Creators as a directory and a template set\<close>

lemma io_bind_io_of_Inr [simp]: "io_bind (io_of (Inr x)) f = f x"
  by (rule ext) (simp add: io_bind_def io_of_def)

lemma io_bind_io_of_Inl [simp]: "io_bind (io_of (Inl e)) f w = (Inl e, w)"
  by (simp add: io_bind_def io_of_def)

lemma io_bind_return_unit [simp]: "io_bind m (\<lambda>_. io_return ()) = (m :: unit io)"
  by (rule ext) (auto simp: io_bind_def io_return_def split: prod.splits sum.splits)

lemma io_bind_return [simp]: "io_bind m io_return = m"
  by (rule ext) (auto simp: io_bind_def io_return_def split: prod.splits sum.splits)

lemma creator_create_plan:
  "creator_create str_lower c base_dir (mk_info ty name version description author_name author_email homepage) =
     io_bind (path_mkdir False False (path_join base_dir (package_identifier_spec name)))
       (\<lambda>_. write_all (template_set str_lower c base_dir name version description author_name author_email homepage))"
  by (cases c)
     (simp_all add: ModuleCreator_create_def CLICreator_create_def AdapterCreator_create_def
        dict_get_mk_info path_join_def package_of_spec short_of_spec Let_def
        ModuleCreator_create_pyproject_def ModuleCreator_pyproject_content_def
        ModuleCreator_create_readme_def ModuleCreator_create_license_def
        ModuleCreator_create_core_file_def ModuleCreator_core_content_def
        ModuleCreator_create_init_file_def ModuleCreator_init_content_def
        CLICreator_create_pyproject_def CLICreator_pyproject_content_def
        CLICreator_create_readme_def CLICreator_create_license_def
        CLICreator_create_cli_file_def CLICreator_cli_content_def
        CLICreator_create_init_file_def CLICreator_init_content_def
        AdapterCreator_create_pyproject_def AdapterCreator_pyproject_content_def
        AdapterCreator_create_readme_def AdapterCreator_create_license_def
        AdapterCreator_create_core_file_def AdapterCreator_core_content_def
        AdapterCreator_create_converter_file_def AdapterCreator_converter_content_def
        AdapterCreator_create_init_file_def AdapterCreator_init_content_def
        pyproject_fields_mk_info readme_content_def)

lemma is_dir_upd_nondir: "is_dir fs d \<Longrightarrow> fs p \<noteq> Some Dir \<Longrightarrow> is_dir (fs(p \<mapsto> n)) d"
  by (auto simp: is_dir_iff)

lemma write_all_Inr:
  "write_all xs w = (Inr u, w') \<Longrightarrow>
     w' = w\<lparr>files := apply_writes (files w) xs, written := written w @ map fst xs\<rparr>"
proof (induction xs arbitrary: w)
  case Nil
  then show ?case by (simp add: io_return_def)
next
  case (Cons x xs)
  obtain p data where x: "x = (p, data)" by (cases x)
  let ?w1 = "w\<lparr>files := (files w)(p \<mapsto> File data), written := written w @ [p]\<rparr>"
  from Cons.prems x obtain w1 where
    w1: "write_text p data w = (Inr (), w1)" and rest: "write_all xs w1 = (Inr u, w')"
    by (auto simp: io_bind_Inr)
  from w1 have e: "w1 = ?w1"
    by (simp add: write_text_Inr)
  have "w' = ?w1\<lparr>files := apply_writes (files ?w1) xs, written := written ?w1 @ map fst xs\<rparr>"
    using rest unfolding e by (rule Cons.IH)
  also have "\<dots> = w\<lparr>files := apply_writes (files w) (x # xs), written := written w @ map fst (x # xs)\<rparr>"
    unfolding x by simp
  finally show ?case .
qed

lemma write_all_ok:
  "\<forall>(p, data) \<in> set xs. p \<noteq> [] \<and> is_dir (files w) (butlast p) \<and> files w p \<noteq> Some Dir \<Longrightarrow>
     write_all xs w =
       (Inr (), w\<lparr>files := apply_writes (files w) xs, written := written w @ map fst xs\<rparr>)"
proof (induction xs arbitrary: w)
  case Nil
  then show ?case by (simp add: io_return_def)
next
  case (Cons x xs)
  obtain p data where x: "x = (p, data)" by (cases x)
  let ?w1 = "w\<lparr>files := (files w)(p \<mapsto> File data), written := written w @ [p]\<rparr>"
  from Cons.prems x have p: "p \<noteq> []" "is_dir (files w) (butlast p)" "files w p \<noteq> Some Dir"
    by auto
  then have w1: "write_text p data w = (Inr (), ?w1)"
    by (simp add: write_text_Inr)
  have "\<forall>(q, d) \<in> set xs. q \<noteq> [] \<and> is_dir (files ?w1) (butlast q) \<and> files ?w1 q \<noteq> Some Dir"
  proof (intro ballI, clarify)
    fix q d assume "(q, d) \<in> set xs"
    with Cons.prems have "q \<noteq> []" "is_dir (files w) (butlast q)" "files w q \<noteq> Some Dir"
      by auto
    with p(3) show "q \<noteq> [] \<and> is_dir (files ?w1) (butlast q) \<and> files ?w1 q \<noteq> Some Dir"
      by (simp add: is_dir_upd_nondir)
  qed
  then have ih: "write_all xs ?w1 =
      (Inr (), ?w1\<lparr>files := apply_writes (files ?w1) xs, written := written ?w1 @ map fst xs\<rparr>)"
    by (rule Cons.IH)
  have "write_all (x # xs) w = write_all xs ?w1"
    unfolding x by (simp add: io_bind_def w1)
  also note ih
  also have "(Inr (), ?w1\<lparr>files := apply_writes (files ?w1) xs, written := written ?w1 @ map fst xs\<rparr>) =
      (Inr (), w\<lparr>files := apply_writes (files w) (x # xs), written := written w @ map fst (x # xs)\<rparr>)"
    unfolding x by simp
  finally show ?case .
qed

lemma apply_writes_other: "p \<notin> fst ` set xs \<Longrightarrow> apply_writes fs xs p = fs p"
  by (induction fs xs rule: apply_writes.induct) auto

lemma apply_writes_found:
  "distinct (map fst xs) \<Longrightarrow> (p, data) \<in> set xs \<Longrightarrow> apply_writes fs xs p = Some (File data)"
proof (induction xs arbitrary: fs)
  case Nil
  then show ?case by simp
next
  case (Cons x rest)
  obtain q d where x: "x = (q, d)" by (cases x)
  have step: "apply_writes fs (x # rest) p = apply_writes (fs(q \<mapsto> File d)) rest p"
    unfolding x by simp
  show ?case
  proof (cases "(p, data) = (q, d)")
    case True
    with Cons.prems x have "p \<notin> fst ` set rest" by auto
    then have "apply_writes (fs(q \<mapsto> File d)) rest p = (fs(q \<mapsto> File d)) p"
      by (rule apply_writes_other)
    also have "\<dots> = Some (File data)" using True by simp
    finally show ?thesis unfolding step .
  next
    case False
    with Cons.prems x have "distinct (map fst rest)" "(p, data) \<in> set rest" by auto
    then have "apply_writes (fs(q \<mapsto> File d)) rest p = Some (File data)"
      by (rule Cons.IH)
    then show ?thesis unfolding step .
  qed
qed

lemma template_set_paths:
  "map fst (template_set str_lower c base_dir name version description author_name author_email homepage) =
     map (\<lambda>f. base_dir @ [f]) [''pyproject.toml'', ''README.md'', ''LICENSE''] @
     map (\<lambda>f. base_dir @ [package_identifier_spec name, f])
       (case c of ModuleCreator \<Rightarrow> [''Core.py'', ''__init__.py'']
        | CLICreator \<Rightarrow> [''cli.py'', ''__init__.py'']
        | AdapterCreator \<Rightarrow> [''Core.py'', ''Converter.py'', ''__init__.py''])"
  by (cases c) simp_all

lemma template_set_distinct:
  "distinct (map fst (template_set str_lower c base_dir name version description author_name author_email homepage))"
  by (cases c) simp_all

lemma creator_create_ok:
  assumes base: "is_dir (files w) base_dir"
    and free: "files w (base_dir @ [package_identifier_spec name]) = None"
    and pkg: "package_identifier_spec name \<notin> {''pyproject.toml'', ''README.md'', ''LICENSE''}"
    and nodir: "\<forall>p \<in> fst ` set (template_set str_lower c base_dir name version description author_name author_email homepage).
                  files w p \<noteq> Some Dir"
  shows "creator_create str_lower c base_dir (mk_info ty name version description author_name author_email homepage) w =
     (Inr (), w\<lparr>files := apply_writes ((files w)(base_dir @ [package_identifier_spec name] \<mapsto> Dir))
                   (template_set str_lower c base_dir name version description author_name author_email homepage),
                written := written w @
                   map fst (template_set str_lower c base_dir name version description author_name author_email homepage)\<rparr>)"
proof -
  let ?m = "base_dir @ [package_identifier_spec name]"
  let ?plan = "template_set str_lower c base_dir name version description author_name author_email homepage"
  let ?w1 = "w\<lparr>files := (files w)(?m \<mapsto> Dir)\<rparr>"
  have mk: "path_mkdir False False (path_join base_dir (package_identifier_spec name)) w = (Inr (), ?w1)"
    using base free by (simp add: path_mkdir_plain path_join_def os_mkdir_Inr)
  have b1: "is_dir (files ?w1) base_dir"
    using base by (simp add: is_dir_upd_Dir)
  have m1: "is_dir (files ?w1) ?m"
    using base is_dir_created [of ?m "files w"] by simp
  have "\<forall>(p, data) \<in> set ?plan. p \<noteq> [] \<and> is_dir (files ?w1) (butlast p) \<and> files ?w1 p \<noteq> Some Dir"
    using b1 m1 pkg nodir by (cases c) (auto simp: butlast_append)
  then have wa: "write_all ?plan ?w1 =
      (Inr (), ?w1\<lparr>files := apply_writes (files ?w1) ?plan, written := written ?w1 @ map fst ?plan\<rparr>)"
    by (rule write_all_ok)
  show ?thesis
    by (simp add: creator_create_plan io_bind_def mk wa)
qed

lemma path_mkdir_base:
  assumes "is_dir (files w) (out @ [name]) \<or> (is_dir (files w) out \<and> files w (out @ [name]) = None)"
  shows "path_mkdir True True (out @ [name]) w = (Inr (), w\<lparr>files := (files w)(out @ [name] \<mapsto> Dir)\<rparr>)"
  using assms
proof
  assume d: "is_dir (files w) (out @ [name])"
  then have "files w (out @ [name]) = Some Dir"
    by (auto dest: is_dir_node)
  then have "(files w)(out @ [name] \<mapsto> Dir) = files w"
    by (rule fun_upd_idem)
  with path_mkdir_existing [OF d] show ?thesis by simp
next
  assume "is_dir (files w) out \<and> files w (out @ [name]) = None"
  then have "os_mkdir (out @ [name]) w = (Inr (), w\<lparr>files := (files w)(out @ [name] \<mapsto> Dir)\<rparr>)"
    by (simp add: os_mkdir_Inr)
  then show ?thesis by (subst path_mkdir.simps) simp
qed

lemma create_project_structure_ok:
  assumes ty: "creators_get ty = Inr c"
    and base: "is_dir (files w) (out @ [name]) \<or> (is_dir (files w) out \<and> files w (out @ [name]) = None)"
    and free: "files w (out @ [name, package_identifier_spec name]) = None"
    and pkg: "package_identifier_spec name \<notin> {''pyproject.toml'', ''README.md'', ''LICENSE''}"
    and nodir: "\<forall>p \<in> fst ` set (template_set str_lower c (out @ [name]) name version description author_name author_email homepage).
                  files w p \<noteq> Some Dir"
  shows "create_project_structure str_lower out (mk_info ty name version description author_name author_email homepage) w =
     (Inr PyNone,
      w\<lparr>files := apply_writes ((files w)(out @ [name] \<mapsto> Dir, out @ [name, package_identifier_spec name] \<mapsto> Dir))
                   (template_set str_lower c (out @ [name]) name version description author_name author_email homepage),
        written := written w @
                   map fst (template_set str_lower c (out @ [name]) name version description author_name author_email homepage),
        console := console w @ [ResultShown (out @ [name]) name]\<rparr>)"
proof -
  let ?b = "out @ [name]"
  let ?plan = "template_set str_lower c ?b name version description author_name author_email homepage"
  let ?w1 = "w\<lparr>files := (files w)(?b \<mapsto> Dir)\<rparr>"
  have mk: "path_mkdir True True ?b w = (Inr (), ?w1)"
    by (rule path_mkdir_base [OF base])
  have b1: "is_dir (files ?w1) ?b"
    using base is_dir_created [of ?b "files w"] by (auto simp: is_dir_upd_Dir)
  have f1: "files ?w1 (?b @ [package_identifier_spec name]) = None"
    using free by simp
  have n1: "\<forall>p \<in> fst ` set ?plan. files ?w1 p \<noteq> Some Dir"
    using nodir by (cases c) simp_all
  note cr = creator_create_ok [OF b1 f1 pkg n1, of ty]
  show ?thesis
    by (simp add: create_project_structure_def dict_get_mk_info Let_def mk ty cr [unfolded path_join_def]
        path_join_def display_result_def console_print_def io_bind_def io_return_def io_of_def)
qed

section \<open>The short name\<close>

lemma short_name_spec_hyphen_free: "CHR ''-'' \<notin> set (short_name_spec name)"
proof (cases "CHR ''-'' \<in> set name")
  case True
  have "CHR ''-'' \<notin> set (takeWhile (\<lambda>c. c \<noteq> CHR ''-'') (rev name))"
    by (auto dest: set_takeWhileD)
  with True show ?thesis by (simp add: short_name_spec_def)
next
  case False
  then show ?thesis by (simp add: short_name_spec_def)
qed

lemma short_name_spec_after_hyphen:
  assumes "CHR ''-'' \<in> set name"
  shows "\<exists>pre. name = pre @ ''-'' @ short_name_spec name"
proof -
  let ?P = "\<lambda>c. c \<noteq> CHR ''-''"
  from assms have "dropWhile ?P (rev name) \<noteq> []" by auto
  moreover have "?P (hd (dropWhile ?P (rev name))) \<Longrightarrow> False"
    using hd_dropWhile [OF \<open>dropWhile ?P (rev name) \<noteq> []\<close>] by simp
  ultimately obtain rest where d: "dropWhile ?P (rev name) = CHR ''-'' # rest"
    by (cases "dropWhile ?P (rev name)") auto
  have "rev name = takeWhile ?P (rev name) @ dropWhile ?P (rev name)" by simp
  then have "name = rev (dropWhile ?P (rev name)) @ rev (takeWhile ?P (rev name))"
    by (metis rev_append rev_rev_ident)
  with d assms have "name = rev rest @ ''-'' @ short_name_spec name"
    by (simp add: short_name_spec_def)
  then show ?thesis ..
qed

section \<open>Builds in the example worlds\<close>

lemma creators_get_simps:
  "creators_get ''module'' = Inr ModuleCreator"
  "creators_get ''cli'' = Inr CLICreator"
  "creators_get ''adapter'' = Inr AdapterCreator"
  by (simp_all add: creators_get_def creators_def)

lemma creators_get_unknown:
  "ty \<notin> {''module'', ''cli'', ''adapter''} \<Longrightarrow> creators_get ty = Inl (KeyError ty)"
  by (simp add: creators_get_def creators_def)

lemma creator_create_existing:
  assumes "files w (base_dir @ [package_of name]) \<noteq> None"
  shows "\<exists>e. creator_create str_lower c base_dir
               (mk_info ty name version description author_name author_email homepage) w = (Inl e, w) \<and>
             path_mkdir False False (base_dir @ [package_of name]) w = (Inl e, w) \<and>
             (is_dir (files w) base_dir \<longrightarrow> e = FileExistsError (base_dir @ [package_of name]))"
proof -
  from os_mkdir_exists_fails [OF assms] obtain e where
    e: "os_mkdir (base_dir @ [package_of name]) w = (Inl e, w)" by blast
  have "is_dir (files w) base_dir \<longrightarrow> e = FileExistsError (base_dir @ [package_of name])"
    using os_mkdir_exists [OF assms] e by simp
  with e show ?thesis
    by (simp add: creator_create_plan path_join_def package_of_spec [symmetric] path_mkdir_plain
        io_bind_def)
qed

lemma build_on_used_world:
  "create_project_structure str_lower [] (mk_info ''module'' ''proj'' ''1.0.0'' ''d'' ''a'' ''e'' ''h'') used_world =
     (Inr PyNone,
      used_world\<lparr>files := apply_writes ((files used_world)([''proj''] \<mapsto> Dir, [''proj'', ''proj''] \<mapsto> Dir))
            (template_set str_lower ModuleCreator [''proj''] ''proj'' ''1.0.0'' ''d'' ''a'' ''e'' ''h''),
          written := map fst (template_set str_lower ModuleCreator [''proj''] ''proj'' ''1.0.0'' ''d'' ''a'' ''e'' ''h''),
          console := [ResultShown [''proj''] ''proj'']\<rparr>)"
proof -
  have d: "is_dir (files used_world) ([] @ [''proj''])"
    by (simp add: used_world_def is_dir_def)
  have p: "package_identifier_spec ''proj'' = ''proj''"
    by (simp add: package_identifier_spec_def)
  have "create_project_structure str_lower [] (mk_info ''module'' ''proj'' ''1.0.0'' ''d'' ''a'' ''e'' ''h'') used_world =
      (Inr PyNone,
       used_world\<lparr>files := apply_writes ((files used_world)([] @ [''proj''] \<mapsto> Dir, [] @ [''proj'', package_identifier_spec ''proj''] \<mapsto> Dir))
            (template_set str_lower ModuleCreator ([] @ [''proj'']) ''proj'' ''1.0.0'' ''d'' ''a'' ''e'' ''h''),
          written := written used_world @ map fst (template_set str_lower ModuleCreator ([] @ [''proj'']) ''proj'' ''1.0.0'' ''d'' ''a'' ''e'' ''h''),
          console := console used_world @ [ResultShown ([] @ [''proj'']) ''proj'']\<rparr>)"
    using d by (intro create_project_structure_ok)
      (simp_all add: creators_get_simps p used_world_def)
  then show ?thesis
    unfolding p by (simp add: used_world_def)
qed

lemma build_on_empty_world:
  "create_project_structure str_lower []
     (mk_info ''module'' ''ErisPulse-Weather'' ''1.0.0'' description author_name author_email homepage)
     empty_world =
     (Inr PyNone,
      \<lparr>files = apply_writes
           [[''ErisPulse-Weather''] \<mapsto> Dir, [''ErisPulse-Weather'', ''ErisPulse_Weather''] \<mapsto> Dir]
           (template_set str_lower ModuleCreator [''ErisPulse-Weather''] ''ErisPulse-Weather'' ''1.0.0''
              description author_name author_email homepage),
       written = map fst (template_set str_lower ModuleCreator [''ErisPulse-Weather''] ''ErisPulse-Weather'' ''1.0.0''
              description author_name author_email homepage),
       console = [ResultShown [''ErisPulse-Weather''] ''ErisPulse-Weather'']\<rparr>)"
proof -
  let ?n = "''ErisPulse-Weather''"
  have p: "package_identifier_spec ?n = ''ErisPulse_Weather''"
    by (simp add: package_identifier_spec_def)
  have "create_project_structure str_lower [] (mk_info ''module'' ?n ''1.0.0'' description author_name author_email homepage) empty_world =
      (Inr PyNone,
       empty_world\<lparr>files := apply_writes ((files empty_world)([] @ [?n] \<mapsto> Dir, [] @ [?n, package_identifier_spec ?n] \<mapsto> Dir))
            (template_set str_lower ModuleCreator ([] @ [?n]) ?n ''1.0.0'' description author_name author_email homepage),
          written := written empty_world @ map fst (template_set str_lower ModuleCreator ([] @ [?n]) ?n ''1.0.0'' description author_name author_email homepage),
          console := console empty_world @ [ResultShown ([] @ [?n]) ?n]\<rparr>)"
    by (intro create_project_structure_ok)
      (simp_all add: creators_get_simps p empty_world_def)
  then show ?thesis
    unfolding p by (simp add: empty_world_def)
qed

section \<open>What a successful run leaves\<close>

lemma creators_get_Inr: "creators_get ty = Inr c \<Longrightarrow> ty = entry_group c"
  by (cases c) (auto simp: creators_get_def creators_def split: if_splits)

lemma creator_create_Inr:
  assumes "creator_create str_lower c base_dir
             (mk_info ty name version description author_name author_email homepage) w = (Inr u, w')"
  shows "w' = w\<lparr>files := apply_writes
                  ((files w)(path_join base_dir (package_identifier_spec name) \<mapsto> Dir))
                  (template_set str_lower c base_dir name version description author_name author_email homepage),
                written := written w @
                  map fst (template_set str_lower c base_dir name version description author_name author_email homepage)\<rparr>"
proof -
  let ?m = "path_join base_dir (package_identifier_spec name)"
  let ?plan = "template_set str_lower c base_dir name version description author_name author_email homepage"
  from assms obtain w1 where
    mk: "path_mkdir False False ?m w = (Inr (), w1)" and wa: "write_all ?plan w1 = (Inr (), w')"
    by (auto simp: creator_create_plan io_bind_Inr)
  from mk have w1: "w1 = w\<lparr>files := (files w)(?m \<mapsto> Dir)\<rparr>"
    by (simp add: path_mkdir_plain os_mkdir_Inr)
  have "w' = w1\<lparr>files := apply_writes (files w1) ?plan, written := written w1 @ map fst ?plan\<rparr>"
    by (rule write_all_Inr [OF wa])
  also have "\<dots> = w\<lparr>files := apply_writes ((files w)(?m \<mapsto> Dir)) ?plan,
        written := written w @ map fst ?plan\<rparr>"
    unfolding w1 by simp
  finally show ?thesis .
qed

lemma creator_create_Inr_file:
  assumes "creator_create str_lower c base_dir
             (mk_info ty name version description author_name author_email homepage) w = (Inr u, w')"
    and "(p, data) \<in> set (template_set str_lower c base_dir name version description author_name author_email homepage)"
  shows "files w' p = Some (File data)"
proof -
  have "apply_writes ((files w)(path_join base_dir (package_identifier_spec name) \<mapsto> Dir))
          (template_set str_lower c base_dir name version description author_name author_email homepage) p =
        Some (File data)"
    using template_set_distinct assms(2) by (rule apply_writes_found)
  then show ?thesis
    unfolding creator_create_Inr [OF assms(1)] by simp
qed

lemma create_project_structure_Inr:
  assumes "create_project_structure str_lower out
             (mk_info ty name version description author_name author_email homepage) w = (Inr r, w')"
  shows "\<exists>c w1 w2. creators_get ty = Inr c \<and>
           path_mkdir True True (path_join out name) w = (Inr (), w1) \<and>
           creator_create str_lower c (path_join out name)
             (mk_info ty name version description author_name author_email homepage) w1 = (Inr (), w2) \<and>
           r = PyNone \<and>
           w' = w2\<lparr>console := console w2 @ [ResultShown (path_join out name) name]\<rparr>"
  using assms
  by (auto simp: create_project_structure_def dict_get_mk_info Let_def io_bind_Inr
      display_result_def console_print_def io_return_def)

lemma create_project_structure_Inr_file:
  assumes "create_project_structure str_lower out
             (mk_info ty name version description author_name author_email homepage) w = (Inr r, w')"
    and "creators_get ty = Inr c"
    and "(p, data) \<in> set (template_set str_lower c (path_join out name) name version description author_name author_email homepage)"
  shows "files w' p = Some (File data)"
proof -
  from create_project_structure_Inr [OF assms(1)] assms(2) obtain w1 w2 where
    cr: "creator_create str_lower c (path_join out name)
           (mk_info ty name version description author_name author_email homepage) w1 = (Inr (), w2)"
    and w': "w' = w2\<lparr>console := console w2 @ [ResultShown (path_join out name) name]\<rparr>"
    by auto
  from creator_create_Inr_file [OF cr assms(3)] w' show ?thesis by simp
qed

section \<open>The symbols the stubs define\<close>

lemma ex_mid_later:
  "\<exists>pre post. ys = pre @ x @ post \<Longrightarrow> \<exists>pre post. zs @ ys = pre @ x @ (post :: 'a list)"
  by (metis append_assoc)

lemma ModuleCreator_core_defines:
  "\<exists>pre post. ModuleCreator_core_text module_name = pre @ ''class Main:'' @ post"
proof -
  have here: "\<exists>pre post. ''class Main:\<newline>'' @ rest = pre @ ''class Main:'' @ post" for rest
    by (intro exI [of _ "[]"] exI [of _ "''\<newline>'' @ rest"]) simp
  show ?thesis
    unfolding ModuleCreator_core_text_def
    by (rule here | rule ex_mid_later)+
qed

lemma CLICreator_cli_defines:
  "\<exists>pre post. CLICreator_cli_text command_name description = pre @ ''def cli_register('' @ post"
proof -
  have here: "\<exists>pre post. ''def cli_register(subparsers: Any, console: Console) -> None:\<newline>'' @ rest =
      pre @ ''def cli_register('' @ post" for rest
    by (intro exI [of _ "[]"]
          exI [of _ "''subparsers: Any, console: Console) -> None:\<newline>'' @ rest"]) simp
  show ?thesis
    unfolding CLICreator_cli_text_def
    by (rule here | rule ex_mid_later)+
qed

lemma AdapterCreator_core_defines:
  "\<exists>pre post. AdapterCreator_core_text adapter_name =
     pre @ (''class '' @ adapter_name @ ''(BaseAdapter):'') @ post"
proof -
  have here: "\<exists>pre post. ''class '' @ adapter_name @ ''(BaseAdapter):\<newline>'' @ rest =
      pre @ (''class '' @ adapter_name @ ''(BaseAdapter):'') @ post" for rest
    by (intro exI [of _ "[]"] exI [of _ "''\<newline>'' @ rest"]) simp
  show ?thesis
    unfolding AdapterCreator_core_text_def
    by (rule here | rule ex_mid_later)+
qed

lemma template_set_manifest:
  "\<exists>head. (path_join base_dir ''pyproject.toml'',
      head @ registration_entry (entry_group c) (entry_key_spec str_lower c name)
               (package_identifier_spec name @ '':'' @ entry_symbol_spec c name))
     \<in> set (template_set str_lower c base_dir name version description author_name author_email homepage)"
  using CLICreator_pyproject_tail [of str_lower name version description author_name author_email homepage]
    ModuleCreator_pyproject_tail [of name version description author_name author_email homepage]
    AdapterCreator_pyproject_tail [of name version description author_name author_email homepage]
  by (cases c) (auto simp: path_join_def short_of_spec package_of_spec)

lemma template_set_init:
  "(path_join (path_join base_dir (package_identifier_spec name)) ''__init__.py'',
      ''from .'' @ stub_module c @ '' import '' @ entry_symbol_spec c name)
     \<in> set (template_set str_lower c base_dir name version description author_name author_email homepage)"
  by (cases c) (simp_all add: path_join_def)

lemma template_set_stub:
  "\<exists>pre post. (path_join (path_join base_dir (package_identifier_spec name)) (stub_module c @ ''.py''),
      pre @ symbol_definition c name @ post)
     \<in> set (template_set str_lower c base_dir name version description author_name author_email homepage)"
proof (cases c)
  case ModuleCreator
  from ModuleCreator_core_defines [of "short_name_spec name"] obtain pre post where
    "ModuleCreator_core_text (short_name_spec name) = pre @ ''class Main:'' @ post" by blast
  with ModuleCreator show ?thesis
    by (intro exI [of _ pre] exI [of _ post]) (simp add: path_join_def)
next
  case CLICreator
  from CLICreator_cli_defines [of "str_lower (short_name_spec name)" description] obtain pre post where
    "CLICreator_cli_text (str_lower (short_name_spec name)) description =
       pre @ ''def cli_register('' @ post" by blast
  with CLICreator show ?thesis
    by (intro exI [of _ pre] exI [of _ post]) (simp add: path_join_def)
next
  case AdapterCreator
  from AdapterCreator_core_defines [of "short_name_spec name"] obtain pre post where
    "AdapterCreator_core_text (short_name_spec name) =
       pre @ (''class '' @ short_name_spec name @ ''(BaseAdapter):'') @ post" by blast
  with AdapterCreator show ?thesis
    by (intro exI [of _ pre] exI [of _ post]) (simp add: path_join_def)
qed

section \<open>More builds in the example worlds\<close>

lemma ascii_lower_MyTool: "ascii_lower ''MyTool'' = ''mytool''"
  by (simp add: ascii_lower_def ascii_lower_char_def char_of_eq_iff)

lemma build_cli_on_empty_world:
  "create_project_structure str_lower []
     (mk_info ''cli'' ''ErisPulse-MyTool'' ''1.0.0'' ''d'' ''a'' ''a@b.c'' ''h'') empty_world =
     (Inr PyNone,
      \<lparr>files = apply_writes
           [[''ErisPulse-MyTool''] \<mapsto> Dir, [''ErisPulse-MyTool'', ''ErisPulse_MyTool''] \<mapsto> Dir]
           (template_set str_lower CLICreator [''ErisPulse-MyTool''] ''ErisPulse-MyTool'' ''1.0.0''
              ''d'' ''a'' ''a@b.c'' ''h''),
       written = map fst (template_set str_lower CLICreator [''ErisPulse-MyTool''] ''ErisPulse-MyTool''
              ''1.0.0'' ''d'' ''a'' ''a@b.c'' ''h''),
       console = [ResultShown [''ErisPulse-MyTool''] ''ErisPulse-MyTool'']\<rparr>)"
proof -
  let ?n = "''ErisPulse-MyTool''"
  have p: "package_identifier_spec ?n = ''ErisPulse_MyTool''"
    by (simp add: package_identifier_spec_def)
  have "create_project_structure str_lower [] (mk_info ''cli'' ?n ''1.0.0'' ''d'' ''a'' ''a@b.c'' ''h'') empty_world =
      (Inr PyNone,
       empty_world\<lparr>files := apply_writes ((files empty_world)([] @ [?n] \<mapsto> Dir, [] @ [?n, package_identifier_spec ?n] \<mapsto> Dir))
            (template_set str_lower CLICreator ([] @ [?n]) ?n ''1.0.0'' ''d'' ''a'' ''a@b.c'' ''h''),
          written := written empty_world @ map fst (template_set str_lower CLICreator ([] @ [?n]) ?n ''1.0.0'' ''d'' ''a'' ''a@b.c'' ''h''),
          console := console empty_world @ [ResultShown ([] @ [?n]) ?n]\<rparr>)"
    by (intro create_project_structure_ok)
      (simp_all add: creators_get_simps p empty_world_def)
  then show ?thesis
    unfolding p by (simp add: empty_world_def)
qed

lemma adapter_on_used_world:
  "creator_create str_lower AdapterCreator [''proj'']
     (mk_info ''adapter'' ''Foo-Bar'' ''1.0.0'' ''d'' ''a'' ''e'' ''h'') used_world =
     (Inr (),
      used_world\<lparr>files := apply_writes ((files used_world)([''proj'', ''Foo_Bar''] \<mapsto> Dir))
            (template_set str_lower AdapterCreator [''proj''] ''Foo-Bar'' ''1.0.0'' ''d'' ''a'' ''e'' ''h''),
          written := map fst (template_set str_lower AdapterCreator [''proj''] ''Foo-Bar'' ''1.0.0'' ''d'' ''a'' ''e'' ''h'')\<rparr>)"
proof -
  have p: "package_identifier_spec ''Foo-Bar'' = ''Foo_Bar''"
    by (simp add: package_identifier_spec_def)
  have d: "is_dir (files used_world) [''proj'']"
    by (simp add: used_world_def is_dir_def)
  have "creator_create str_lower AdapterCreator [''proj'']
      (mk_info ''adapter'' ''Foo-Bar'' ''1.0.0'' ''d'' ''a'' ''e'' ''h'') used_world =
      (Inr (),
       used_world\<lparr>files := apply_writes ((files used_world)([''proj''] @ [package_identifier_spec ''Foo-Bar''] \<mapsto> Dir))
            (template_set str_lower AdapterCreator [''proj''] ''Foo-Bar'' ''1.0.0'' ''d'' ''a'' ''e'' ''h''),
          written := written used_world @
            map fst (template_set str_lower AdapterCreator [''proj''] ''Foo-Bar'' ''1.0.0'' ''d'' ''a'' ''e'' ''h'')\<rparr>)"
    using d by (intro creator_create_ok) (simp_all add: p used_world_def)
  then show ?thesis
    unfolding p by (simp add: used_world_def)
qed

section \<open>The claims\<close>

text \<open>
  C1: for every name, the package identifier the creators compute is the name with every
  hyphen replaced by an underscore (same length, position by position), and the short
  name they compute is the name itself when it has no hyphen and otherwise the hyphen-free
  text after the last hyphen; both agree with the specification's wording. Every one of
  the three creators makes its package directory under the package identifier and then
  writes its template set, whose paths and contents are built from these two identifiers.
\<close>

theorem derived_identifiers:
  "length (package_of name) = length name \<and>
   (\<forall>i < length name. package_of name ! i = (if name ! i = CHR ''-'' then CHR ''_'' else name ! i)) \<and>
   (CHR ''-'' \<notin> set name \<longrightarrow> short_of name = name) \<and>
   (CHR ''-'' \<in> set name \<longrightarrow> (\<exists>pre. name = pre @ ''-'' @ short_of name)) \<and>
   CHR ''-'' \<notin> set (short_of name) \<and>
   package_of name = package_identifier_spec name \<and>
   short_of name = short_name_spec name \<and>
   (\<forall>c. creator_create str_lower c base_dir (mk_info ty name version description author_name author_email homepage) =
      io_bind (path_mkdir False False (path_join base_dir (package_identifier_spec name)))
        (\<lambda>_. write_all (template_set str_lower c base_dir name version description author_name author_email homepage)))"
proof -
  have "CHR ''-'' \<notin> set name \<longrightarrow> short_of name = name"
    by (simp add: short_of_spec short_name_spec_def)
  moreover have "CHR ''-'' \<in> set name \<longrightarrow> (\<exists>pre. name = pre @ ''-'' @ short_of name)"
    using short_name_spec_after_hyphen [of name] by (simp add: short_of_spec)
  moreover have "CHR ''-'' \<notin> set (short_of name)"
    using short_name_spec_hyphen_free [of name] by (simp add: short_of_spec)
  ultimately show ?thesis
    by (simp add: package_of_spec short_of_spec package_identifier_spec_def creator_create_plan)
qed

text \<open>The derivations on \<open>ErisPulse-Weather\<close> and on the hyphen-free \<open>Weather\<close>.\<close>

theorem derived_identifiers_witness:
  "9 < length ''ErisPulse-Weather'' \<and>
   package_of ''ErisPulse-Weather'' ! 9 = CHR ''_'' \<and>
   package_of ''ErisPulse-Weather'' = ''ErisPulse_Weather'' \<and>
   CHR ''-'' \<in> set ''ErisPulse-Weather'' \<and>
   (\<exists>pre. ''ErisPulse-Weather'' = pre @ ''-'' @ short_of ''ErisPulse-Weather'') \<and>
   short_of ''ErisPulse-Weather'' = ''Weather'' \<and>
   CHR ''-'' \<notin> set ''Weather'' \<and> short_of ''Weather'' = ''Weather''"
  using derived_identifiers [of "''ErisPulse-Weather''"] derived_identifiers [of "''Weather''"]
  by (simp add: package_identifier_spec_def short_name_spec_def)

text \<open>
  C2: for every ProjectInfo the entry-point key written into the manifest is derived from
  the name. The manifest content of the CLI creator, selected by type \<open>cli\<close>, ends with the
  entry-point table whose key is the lowercased short name; those of the module and adapter
  creators, selected by \<open>module\<close> and \<open>adapter\<close>, end with the table whose key is the short
  name unchanged. And whenever a build succeeds, the type is one of the three and the file
  \<open>pyproject.toml\<close> in the base directory holds a manifest that ends with the table of that
  type and that key. Lowercasing is whatever \<open>str.lower\<close> is.
\<close>

theorem entry_point_key:
  "(\<exists>head. CLICreator_pyproject_content str_lower
       (mk_info ty name version description author_name author_email homepage) =
      Inr (head @ registration_entry ''cli'' (str_lower (short_name_spec name))
                    (package_identifier_spec name @ '':cli_register''))) \<and>
   (\<exists>head. ModuleCreator_pyproject_content
       (mk_info ty name version description author_name author_email homepage) =
      Inr (head @ registration_entry ''module'' (short_name_spec name)
                    (package_identifier_spec name @ '':Main''))) \<and>
   (\<exists>head. AdapterCreator_pyproject_content
       (mk_info ty name version description author_name author_email homepage) =
      Inr (head @ registration_entry ''adapter'' (short_name_spec name)
                    (package_identifier_spec name @ '':'' @ short_name_spec name))) \<and>
   creators_get ''cli'' = Inr CLICreator \<and>
   creators_get ''module'' = Inr ModuleCreator \<and>
   creators_get ''adapter'' = Inr AdapterCreator \<and>
   (create_project_structure str_lower out
      (mk_info ty name version description author_name author_email homepage) w = (Inr r, w') \<longrightarrow>
    ty \<in> {''module'', ''cli'', ''adapter''} \<and>
    (\<exists>head. files w' (path_join (path_join out name) ''pyproject.toml'') =
       Some (File (head @ registration_entry ty
         (if ty = ''cli'' then str_lower (short_name_spec name) else short_name_spec name)
         (package_identifier_spec name @ '':'' @
            (if ty = ''module'' then ''Main''
             else if ty = ''cli'' then ''cli_register''
             else short_name_spec name))))))"
proof -
  have written_key:
    "ty \<in> {''module'', ''cli'', ''adapter''} \<and>
     (\<exists>head. files w' (path_join (path_join out name) ''pyproject.toml'') =
       Some (File (head @ registration_entry ty
         (if ty = ''cli'' then str_lower (short_name_spec name) else short_name_spec name)
         (package_identifier_spec name @ '':'' @
            (if ty = ''module'' then ''Main''
             else if ty = ''cli'' then ''cli_register''
             else short_name_spec name)))))"
    if ok: "create_project_structure str_lower out
      (mk_info ty name version description author_name author_email homepage) w = (Inr r, w')"
  proof -
    from create_project_structure_Inr [OF ok] obtain c where c: "creators_get ty = Inr c"
      by blast
    from template_set_manifest [of "path_join out name" c str_lower name version description
        author_name author_email homepage]
    obtain head where
      "(path_join (path_join out name) ''pyproject.toml'',
        head @ registration_entry (entry_group c) (entry_key_spec str_lower c name)
                 (package_identifier_spec name @ '':'' @ entry_symbol_spec c name))
       \<in> set (template_set str_lower c (path_join out name) name version description
                 author_name author_email homepage)"
      by blast
    from create_project_structure_Inr_file [OF ok c this]
    have f: "files w' (path_join (path_join out name) ''pyproject.toml'') =
        Some (File (head @ registration_entry (entry_group c) (entry_key_spec str_lower c name)
                 (package_identifier_spec name @ '':'' @ entry_symbol_spec c name)))" .
    from creators_get_Inr [OF c] have ty: "ty = entry_group c" .
    show ?thesis
      using f unfolding ty by (cases c) auto
  qed
  have contents:
    "(\<exists>head. CLICreator_pyproject_content str_lower
       (mk_info ty name version description author_name author_email homepage) =
      Inr (head @ registration_entry ''cli'' (str_lower (short_name_spec name))
                    (package_identifier_spec name @ '':cli_register''))) \<and>
     (\<exists>head. ModuleCreator_pyproject_content
       (mk_info ty name version description author_name author_email homepage) =
      Inr (head @ registration_entry ''module'' (short_name_spec name)
                    (package_identifier_spec name @ '':Main''))) \<and>
     (\<exists>head. AdapterCreator_pyproject_content
       (mk_info ty name version description author_name author_email homepage) =
      Inr (head @ registration_entry ''adapter'' (short_name_spec name)
                    (package_identifier_spec name @ '':'' @ short_name_spec name)))"
    using CLICreator_pyproject_tail [of str_lower name version description author_name author_email homepage]
      ModuleCreator_pyproject_tail [of name version description author_name author_email homepage]
      AdapterCreator_pyproject_tail [of name version description author_name author_email homepage]
    by (simp add: CLICreator_pyproject_content_def ModuleCreator_pyproject_content_def
        AdapterCreator_pyproject_content_def pyproject_fields_mk_info short_of_spec package_of_spec)
  from contents written_key show ?thesis
    by (simp add: creators_get_simps)
qed

text \<open>
  The CLI project \<open>ErisPulse-MyTool\<close> built in the empty working directory: the manifest
  written has the key \<open>mytool\<close>.
\<close>

theorem entry_point_key_witness:
  "fst (create_project_structure ascii_lower []
          (mk_info ''cli'' ''ErisPulse-MyTool'' ''1.0.0'' ''d'' ''a'' ''a@b.c'' ''h'') empty_world) =
     Inr PyNone \<and>
   (\<exists>head. files (snd (create_project_structure ascii_lower []
          (mk_info ''cli'' ''ErisPulse-MyTool'' ''1.0.0'' ''d'' ''a'' ''a@b.c'' ''h'') empty_world))
        [''ErisPulse-MyTool'', ''pyproject.toml''] =
      Some (File (head @ registration_entry ''cli'' ''mytool'' ''ErisPulse_MyTool:cli_register'')))"
proof -
  let ?run = "create_project_structure ascii_lower []
          (mk_info ''cli'' ''ErisPulse-MyTool'' ''1.0.0'' ''d'' ''a'' ''a@b.c'' ''h'') empty_world"
  have ok: "?run = (Inr PyNone, snd ?run)"
    by (simp add: build_cli_on_empty_world)
  note entry_point_key [of ascii_lower "''cli''" "''ErisPulse-MyTool''" "''1.0.0''" "''d''" "''a''"
      "''a@b.c''" "''h''" "[]" empty_world PyNone "snd ?run",
      THEN conjunct2, THEN conjunct2, THEN conjunct2, THEN conjunct2, THEN conjunct2, THEN conjunct2,
      THEN mp, OF ok, THEN conjunct2]
  then have "\<exists>head. files (snd ?run) [''ErisPulse-MyTool'', ''pyproject.toml''] =
      Some (File (head @ registration_entry ''cli'' ''mytool'' ''ErisPulse_MyTool:cli_register''))"
    by (simp add: path_join_def short_name_spec_def package_identifier_spec_def ascii_lower_MyTool)
  moreover have "fst ?run = Inr PyNone"
    by (simp add: build_cli_on_empty_world)
  ultimately show ?thesis by (rule conjI [rotated])
qed

text \<open>
  C3, as stated, fails: the base directory is made with \<open>exist_ok=True\<close>, so an existing
  base directory that is not empty is accepted. Here \<open>proj/\<close> holds the user's
  \<open>README.md\<close>, and the build succeeds and writes all five files into it.
\<close>

theorem existing_base_dir_counterexample:
  "is_dir (files used_world) [''proj''] \<and>
   files used_world [''proj'', ''README.md''] = Some (File ''my notes'') \<and>
   fst (create_project_structure ascii_lower [] (mk_info ''module'' ''proj'' ''1.0.0'' ''d'' ''a'' ''e'' ''h'') used_world) = Inr PyNone \<and>
   written (snd (create_project_structure ascii_lower [] (mk_info ''module'' ''proj'' ''1.0.0'' ''d'' ''a'' ''e'' ''h'') used_world)) =
     [[''proj'', ''pyproject.toml''], [''proj'', ''README.md''], [''proj'', ''LICENSE''],
      [''proj'', ''proj'', ''Core.py''], [''proj'', ''proj'', ''__init__.py'']]"
  by (simp add: build_on_used_world package_identifier_spec_def) (simp add: used_world_def is_dir_def)

text \<open>
  C3, amended: if the base directory exists and already holds an entry named as the
  package identifier (as it does after an earlier build), the build fails with
  FileExistsError for that path and changes nothing.
\<close>

theorem existing_package_dir_fails:
  assumes ty: "creators_get ty = Inr c"
    and base: "is_dir (files w) (out @ [name])"
    and used: "files w (out @ [name, package_of name]) \<noteq> None"
  shows "create_project_structure str_lower out
           (mk_info ty name version description author_name author_email homepage) w =
         (Inl (FileExistsError (out @ [name, package_of name])), w)"
proof -
  have mk: "path_mkdir True True (out @ [name]) w = (Inr (), w)"
    by (rule path_mkdir_existing [OF base])
  from used have "files w ((out @ [name]) @ [package_of name]) \<noteq> None" by simp
  from creator_create_existing [OF this, of str_lower c ty version description author_name author_email homepage] base
  have cr: "creator_create str_lower c (out @ [name])
      (mk_info ty name version description author_name author_email homepage) w =
      (Inl (FileExistsError (out @ [name, package_of name])), w)"
    by auto
  show ?thesis
    by (simp add: create_project_structure_def dict_get_mk_info Let_def path_join_def io_bind_def
        io_of_def mk ty cr)
qed

text \<open>A second build of the CLI project \<open>proj\<close> over an earlier one.\<close>

theorem existing_package_dir_fails_witness:
  "creators_get ''cli'' = Inr CLICreator \<and>
   is_dir (files built_world) ([] @ [''proj'']) \<and>
   files built_world ([] @ [''proj'', package_of ''proj'']) \<noteq> None \<and>
   create_project_structure ascii_lower [] (mk_info ''cli'' ''proj'' ''1.0.0'' ''d'' ''a'' ''e'' ''h'') built_world =
     (Inl (FileExistsError [''proj'', ''proj'']), built_world)"
proof -
  have t: "creators_get ''cli'' = Inr CLICreator" by (rule creators_get_simps)
  have d: "is_dir (files built_world) ([] @ [''proj''])"
    by (simp add: built_world_def is_dir_def)
  have u: "files built_world ([] @ [''proj'', package_of ''proj'']) \<noteq> None"
    by (simp add: built_world_def package_of_def)
  from existing_package_dir_fails [OF t d u, of ascii_lower "''1.0.0''" "''d''" "''a''" "''e''" "''h''"] t d u
  show ?thesis by (simp add: package_of_def)
qed

text \<open>
  C4, as stated, fails: \<open>write_text\<close> opens its target for writing and never asks whether
  it exists. The user's \<open>proj/README.md\<close> is replaced by the generated one, and the build
  reports success.
\<close>

theorem existing_file_counterexample:
  "files used_world [''proj'', ''README.md''] = Some (File ''my notes'') \<and>
   fst (create_project_structure ascii_lower [] (mk_info ''module'' ''proj'' ''1.0.0'' ''d'' ''a'' ''e'' ''h'') used_world) = Inr PyNone \<and>
   files (snd (create_project_structure ascii_lower [] (mk_info ''module'' ''proj'' ''1.0.0'' ''d'' ''a'' ''e'' ''h'') used_world))
     [''proj'', ''README.md''] = Some (File ''# proj\<newline>\<newline>d'')"
  by (simp add: build_on_used_world package_identifier_spec_def readme_text_def)
     (simp add: used_world_def)

text \<open>
  C4, amended: an existing target file does not stop the build. For a project name that
  is a single path component (not empty, not \<open>.\<close> or \<open>..\<close>, without \<open>/\<close>): when the base
  directory exists, holds no entry named as the package identifier (and that identifier is
  not the name of one of the three root files), and no target path is a directory, the
  build succeeds and every target path holds the generated content, whatever it held
  before.
\<close>

theorem existing_files_overwritten:
  assumes plain: "plain_name name"
    and ty: "creators_get ty = Inr c"
    and base: "is_dir (files w) (out @ [name])"
    and free: "files w (out @ [name, package_of name]) = None"
    and pkg: "package_of name \<notin> {''pyproject.toml'', ''README.md'', ''LICENSE''}"
    and nodir: "\<forall>p \<in> fst ` set (template_set str_lower c (out @ [name]) name version description author_name author_email homepage).
                  files w p \<noteq> Some Dir"
  shows "\<exists>w'. create_project_structure str_lower out
                 (mk_info ty name version description author_name author_email homepage) w =
               (Inr PyNone, w') \<and>
             (\<forall>(p, data) \<in> set (template_set str_lower c (out @ [name]) name version description author_name author_email homepage).
                files w' p = Some (File data))"
proof -
  let ?plan = "template_set str_lower c (out @ [name]) name version description author_name author_email homepage"
  let ?fs = "apply_writes ((files w)(out @ [name] \<mapsto> Dir, out @ [name, package_identifier_spec name] \<mapsto> Dir)) ?plan"
  have ok: "create_project_structure str_lower out
      (mk_info ty name version description author_name author_email homepage) w =
      (Inr PyNone, w\<lparr>files := ?fs, written := written w @ map fst ?plan,
                     console := console w @ [ResultShown (out @ [name]) name]\<rparr>)"
    using ty base free pkg nodir
    by (intro create_project_structure_ok) (simp_all add: package_of_spec)
  have "\<forall>(p, data) \<in> set ?plan. ?fs p = Some (File data)"
    by (auto intro: apply_writes_found template_set_distinct)
  with ok show ?thesis by simp
qed

text \<open>The module project \<open>proj\<close> built over the user's \<open>proj/README.md\<close>.\<close>

theorem existing_files_overwritten_witness:
  "plain_name ''proj'' \<and>
   creators_get ''module'' = Inr ModuleCreator \<and>
   is_dir (files used_world) ([] @ [''proj'']) \<and>
   files used_world ([] @ [''proj'', package_of ''proj'']) = None \<and>
   package_of ''proj'' \<notin> {''pyproject.toml'', ''README.md'', ''LICENSE''} \<and>
   files used_world [''proj'', ''README.md''] = Some (File ''my notes'') \<and>
   (\<exists>w'. create_project_structure ascii_lower [] (mk_info ''module'' ''proj'' ''1.0.0'' ''d'' ''a'' ''e'' ''h'') used_world =
            (Inr PyNone, w') \<and>
          files w' [''proj'', ''README.md''] = Some (File (readme_text ''proj'' ''d'')) \<and>
          files w' [''proj'', ''proj'', ''__init__.py''] = Some (File ''from .Core import Main''))"
proof -
  have t: "creators_get ''module'' = Inr ModuleCreator" by (rule creators_get_simps)
  have d: "is_dir (files used_world) ([] @ [''proj''])"
    by (simp add: used_world_def is_dir_def)
  have f: "files used_world ([] @ [''proj'', package_of ''proj'']) = None"
    by (simp add: used_world_def package_of_def)
  have p: "package_of ''proj'' \<notin> {''pyproject.toml'', ''README.md'', ''LICENSE''}"
    by (simp add: package_of_def)
  have n: "\<forall>p \<in> fst ` set (template_set ascii_lower ModuleCreator ([] @ [''proj'']) ''proj'' ''1.0.0'' ''d'' ''a'' ''e'' ''h'').
      files used_world p \<noteq> Some Dir"
    by (simp add: used_world_def package_identifier_spec_def)
  have r: "files used_world [''proj'', ''README.md''] = Some (File ''my notes'')"
    by (simp add: used_world_def)
  have pl: "plain_name ''proj''" by (simp add: plain_name_def)
  from existing_files_overwritten [OF pl t d f p n] pl t d f p r
  show ?thesis by (auto simp: package_identifier_spec_def)
qed

text \<open>
  C5, as stated, fails: \<open>_create_project_structure\<close> makes the base directory before it
  looks the type up in \<open>creators\<close>. For the type \<open>plugin\<close> in an empty working directory
  the build fails with KeyError, and \<open>proj/\<close> has been created.
\<close>

theorem unknown_type_counterexample:
  "''plugin'' \<notin> {''module'', ''cli'', ''adapter''} \<and>
   files empty_world [''proj''] = None \<and>
   fst (create_project_structure ascii_lower [] (mk_info ''plugin'' ''proj'' ''1.0.0'' ''d'' ''a'' ''e'' ''h'') empty_world) =
     Inl (KeyError ''plugin'') \<and>
   files (snd (create_project_structure ascii_lower [] (mk_info ''plugin'' ''proj'' ''1.0.0'' ''d'' ''a'' ''e'' ''h'') empty_world))
     [''proj''] = Some Dir"
proof -
  have "is_dir (files empty_world) ([] @ [''proj'']) \<or>
      (is_dir (files empty_world) [] \<and> files empty_world ([] @ [''proj'']) = None)"
    by (simp add: empty_world_def)
  from path_mkdir_base [OF this]
  have mk: "path_mkdir True True [''proj''] empty_world =
      (Inr (), empty_world\<lparr>files := (files empty_world)([''proj''] \<mapsto> Dir)\<rparr>)"
    by simp
  have ty: "creators_get ''plugin'' = Inl (KeyError ''plugin'')"
    by (simp add: creators_get_def creators_def)
  show ?thesis
    by (simp add: create_project_structure_def dict_get_mk_info Let_def path_join_def io_bind_def
        io_of_def mk ty)
       (simp add: empty_world_def)
qed

text \<open>
  C5, amended: for a type that is not one of \<open>module\<close>, \<open>cli\<close>, \<open>adapter\<close> the build
  always fails, writes no file and touches nothing outside the path of the base directory.
  The error is either that of making the base directory or the KeyError of the type, and
  in the second case the base directory exists afterwards; when the base directory exists
  or can be made in an existing output directory, the error is the KeyError and the only
  change is that the base directory exists.
\<close>

theorem unknown_type_fails_after_mkdir:
  assumes ty: "ty \<notin> {''module'', ''cli'', ''adapter''}"
  shows "\<exists>e w'. create_project_structure str_lower out
                   (mk_info ty name version description author_name author_email homepage) w =
                 (Inl e, w') \<and>
               written w' = written w \<and>
               (\<forall>q. \<not> prefix q (out @ [name]) \<longrightarrow> files w' q = files w q) \<and>
               (e = KeyError ty \<longrightarrow> is_dir (files w') (out @ [name])) \<and>
               (e \<noteq> KeyError ty \<longrightarrow> path_mkdir True True (out @ [name]) w = (Inl e, w')) \<and>
               (is_dir (files w) (out @ [name]) \<or>
                is_dir (files w) out \<and> files w (out @ [name]) = None \<longrightarrow>
                  e = KeyError ty \<and> w' = w\<lparr>files := (files w)(out @ [name] \<mapsto> Dir)\<rparr>)"
proof -
  let ?b = "out @ [name]"
  obtain r1 w1 where mk: "path_mkdir True True ?b w = (r1, w1)"
    by (cases "path_mkdir True True ?b w")
  from path_mkdir_frame [OF mk]
  have fr: "written w1 = written w" "\<forall>q. \<not> prefix q ?b \<longrightarrow> files w1 q = files w q"
    by simp_all
  have known: "r1 = Inr () \<and> w1 = w\<lparr>files := (files w)(?b \<mapsto> Dir)\<rparr>"
    if "is_dir (files w) ?b \<or> is_dir (files w) out \<and> files w ?b = None"
    using path_mkdir_base [OF that] mk by simp
  from creators_get_unknown [OF ty] have c: "creators_get ty = Inl (KeyError ty)" .
  show ?thesis
  proof (cases r1)
    case (Inl e)
    with mk have res: "create_project_structure str_lower out
        (mk_info ty name version description author_name author_email homepage) w = (Inl e, w1)"
      by (simp add: create_project_structure_def dict_get_mk_info Let_def path_join_def io_bind_def
          io_of_def)
    from mk Inl have ne: "e \<noteq> KeyError ty"
      by (auto dest: path_mkdir_not_KeyError)
    have nk: "\<not> (is_dir (files w) ?b \<or> is_dir (files w) out \<and> files w ?b = None)"
      using known Inl by blast
    from mk Inl have mk': "path_mkdir True True ?b w = (Inl e, w1)" by simp
    show ?thesis
      by (intro exI [of _ e] exI [of _ w1] conjI res fr impI) (use ne nk mk' in simp_all)
  next
    case (Inr u)
    with mk c have res: "create_project_structure str_lower out
        (mk_info ty name version description author_name author_email homepage) w =
        (Inl (KeyError ty), w1)"
      by (simp add: create_project_structure_def dict_get_mk_info Let_def path_join_def io_bind_def
          io_of_def)
    from mk Inr have d: "is_dir (files w1) ?b"
      by (auto dest: path_mkdir_Inr_is_dir)
    show ?thesis
      by (intro exI [of _ "KeyError ty"] exI [of _ w1] conjI res fr impI) (use d known in simp_all)
  qed
qed

text \<open>The type \<open>plugin\<close> in the empty working directory.\<close>

theorem unknown_type_fails_after_mkdir_witness:
  "''plugin'' \<notin> {''module'', ''cli'', ''adapter''} \<and>
   is_dir (files empty_world) [] \<and> files empty_world ([] @ [''proj'']) = None \<and>
   create_project_structure ascii_lower [] (mk_info ''plugin'' ''proj'' ''1.0.0'' ''d'' ''a'' ''e'' ''h'') empty_world =
     (Inl (KeyError ''plugin''), empty_world\<lparr>files := (files empty_world)([''proj''] \<mapsto> Dir)\<rparr>)"
proof -
  have t: "''plugin'' \<notin> {''module'', ''cli'', ''adapter''}" by simp
  have d: "is_dir (files empty_world) []" by simp
  have f: "files empty_world ([] @ [''proj'']) = None" by (simp add: empty_world_def)
  from unknown_type_fails_after_mkdir [OF t, of ascii_lower "[]" "''proj''" "''1.0.0''" "''d''" "''a''" "''e''" "''h''" empty_world]
    d f
  show ?thesis by auto
qed

text \<open>
  C6, as stated, fails: the package directory is the name with its hyphens replaced and
  nothing else changed, so it is \<open>ErisPulse_Weather\<close>; no \<open>erispulse_weather\<close> is made.
\<close>

theorem weather_scenario_counterexample:
  "fst (create_project_structure ascii_lower []
          (mk_info ''module'' ''ErisPulse-Weather'' ''1.0.0'' ''d'' ''a'' ''e'' ''h'') empty_world) = Inr PyNone \<and>
   files (snd (create_project_structure ascii_lower []
          (mk_info ''module'' ''ErisPulse-Weather'' ''1.0.0'' ''d'' ''a'' ''e'' ''h'') empty_world))
     [''ErisPulse-Weather'', ''erispulse_weather''] = None \<and>
   files (snd (create_project_structure ascii_lower []
          (mk_info ''module'' ''ErisPulse-Weather'' ''1.0.0'' ''d'' ''a'' ''e'' ''h'') empty_world))
     [''ErisPulse-Weather'', ''ErisPulse_Weather''] = Some Dir"
  by (simp add: build_on_empty_world package_identifier_spec_def)

text \<open>
  C6, amended: for the module project \<open>ErisPulse-Weather\<close>, version \<open>1.0.0\<close>, whatever
  the other fields, the build in an empty working directory succeeds and leaves exactly
  \<open>ErisPulse-Weather/\<close> with \<open>pyproject.toml\<close>, \<open>README.md\<close>, \<open>LICENSE\<close> and the package
  directory \<open>ErisPulse_Weather/\<close> holding \<open>Core.py\<close> and \<open>__init__.py\<close>; the manifest ends
  with the entry-point table of group \<open>module\<close> whose key is \<open>Weather\<close> and whose target is
  \<open>ErisPulse_Weather:Main\<close>.
\<close>

theorem weather_scenario:
  \<open>create_project_structure str_lower []
     (mk_info ''module'' ''ErisPulse-Weather'' ''1.0.0'' description author_name author_email homepage)
     empty_world =
     (Inr PyNone,
      \<lparr>files =
         [[''ErisPulse-Weather''] \<mapsto> Dir,
          [''ErisPulse-Weather'', ''ErisPulse_Weather''] \<mapsto> Dir,
          [''ErisPulse-Weather'', ''pyproject.toml''] \<mapsto>
             File (ModuleCreator_pyproject_text ''ErisPulse-Weather'' ''1.0.0''
                     description author_name author_email homepage),
          [''ErisPulse-Weather'', ''README.md''] \<mapsto>
             File (readme_text ''ErisPulse-Weather'' description),
          [''ErisPulse-Weather'', ''LICENSE''] \<mapsto> File license_text,
          [''ErisPulse-Weather'', ''ErisPulse_Weather'', ''Core.py''] \<mapsto>
             File (ModuleCreator_core_text ''Weather''),
          [''ErisPulse-Weather'', ''ErisPulse_Weather'', ''__init__.py''] \<mapsto>
             File ''from .Core import Main''],
       written =
         [[''ErisPulse-Weather'', ''pyproject.toml''],
          [''ErisPulse-Weather'', ''README.md''],
          [''ErisPulse-Weather'', ''LICENSE''],
          [''ErisPulse-Weather'', ''ErisPulse_Weather'', ''Core.py''],
          [''ErisPulse-Weather'', ''ErisPulse_Weather'', ''__init__.py'']],
       console = [ResultShown [''ErisPulse-Weather''] ''ErisPulse-Weather'']\<rparr>) \<and>
   (\<exists>head. ModuleCreator_pyproject_text ''ErisPulse-Weather'' ''1.0.0''
             description author_name author_email homepage =
      head @ registration_entry ''module'' ''Weather'' ''ErisPulse_Weather:Main'')\<close>
proof -
  have s: "short_of ''ErisPulse-Weather'' = ''Weather''"
    by (simp add: short_of_spec short_name_spec_def)
  have p: "package_of ''ErisPulse-Weather'' = ''ErisPulse_Weather''"
    by (simp add: package_of_spec package_identifier_spec_def)
  from ModuleCreator_pyproject_tail [of "''ErisPulse-Weather''" "''1.0.0''" description author_name author_email homepage]
  have "\<exists>head. ModuleCreator_pyproject_text ''ErisPulse-Weather'' ''1.0.0''
             description author_name author_email homepage =
      head @ registration_entry ''module'' ''Weather'' ''ErisPulse_Weather:Main''"
    unfolding s p by simp
  then show ?thesis
    by (simp add: build_on_empty_world package_identifier_spec_def short_name_spec_def)
qed

text \<open>
  C7: when the user declines the confirmation, the prompt stage yields the empty
  ProjectInfo, and \<open>handle_scaffold\<close> returns normally having only printed the banner, the
  collected answers and the cancellation notice: no file or directory is touched and no
  \<open>write_text\<close> happens.
\<close>

theorem cancelled_is_noop:
  assumes "\<not> ans_confirm a"
  shows "fst (collect_project_info a w) = Inr [] \<and>
         handle_scaffold str_lower output a w =
           (Inr (), w\<lparr>console := console w @
              [Banner,
               InfoShown (mk_info (ans_type a) (ans_name a) (ans_version a) (ans_description a)
                            (ans_author_name a) (ans_author_email a) (ans_homepage a)),
               Cancelled]\<rparr>) \<and>
         files (snd (handle_scaffold str_lower output a w)) = files w \<and>
         written (snd (handle_scaffold str_lower output a w)) = written w"
  using assms
  by (simp add: handle_scaffold_def collect_project_info_def console_print_def io_bind_def
      io_return_def Let_def)

text \<open>Declining in the working directory that holds the user's \<open>proj/\<close>.\<close>

theorem cancelled_is_noop_witness:
  "\<not> ans_confirm \<lparr>ans_type = ''module'', ans_name = ''proj'', ans_version = ''1.0.0'',
       ans_description = ''d'', ans_author_name = ''a'', ans_author_email = ''e'',
       ans_homepage = ''h'', ans_confirm = False\<rparr> \<and>
   handle_scaffold ascii_lower []
     \<lparr>ans_type = ''module'', ans_name = ''proj'', ans_version = ''1.0.0'',
       ans_description = ''d'', ans_author_name = ''a'', ans_author_email = ''e'',
       ans_homepage = ''h'', ans_confirm = False\<rparr> used_world =
     (Inr (), used_world\<lparr>console :=
        [Banner, InfoShown (mk_info ''module'' ''proj'' ''1.0.0'' ''d'' ''a'' ''e'' ''h''), Cancelled]\<rparr>)"
  using cancelled_is_noop [of "\<lparr>ans_type = ''module'', ans_name = ''proj'', ans_version = ''1.0.0'',
       ans_description = ''d'', ans_author_name = ''a'', ans_author_email = ''e'',
       ans_homepage = ''h'', ans_confirm = False\<rparr>" used_world ascii_lower "[]"]
  by (simp add: used_world_def)

text \<open>
  C8, as stated, fails: \<open>_create_project_structure\<close> is declared to return \<open>None\<close> and does;
  the build of \<open>ErisPulse-Weather\<close> writes five files and returns \<open>None\<close>, not their paths.
\<close>

theorem build_returns_paths_counterexample:
  "fst (create_project_structure ascii_lower []
          (mk_info ''module'' ''ErisPulse-Weather'' ''1.0.0'' ''d'' ''a'' ''e'' ''h'') empty_world) = Inr PyNone \<and>
   written (snd (create_project_structure ascii_lower []
          (mk_info ''module'' ''ErisPulse-Weather'' ''1.0.0'' ''d'' ''a'' ''e'' ''h'') empty_world)) =
     [[''ErisPulse-Weather'', ''pyproject.toml''],
      [''ErisPulse-Weather'', ''README.md''],
      [''ErisPulse-Weather'', ''LICENSE''],
      [''ErisPulse-Weather'', ''ErisPulse_Weather'', ''Core.py''],
      [''ErisPulse-Weather'', ''ErisPulse_Weather'', ''__init__.py'']] \<and>
   fst (create_project_structure ascii_lower []
          (mk_info ''module'' ''ErisPulse-Weather'' ''1.0.0'' ''d'' ''a'' ''e'' ''h'') empty_world) \<noteq>
     Inr (PyPaths (written (snd (create_project_structure ascii_lower []
          (mk_info ''module'' ''ErisPulse-Weather'' ''1.0.0'' ''d'' ''a'' ''e'' ''h'') empty_world))))"
  by (simp add: build_on_empty_world package_identifier_spec_def)

text \<open>
  C8, amended: a successful build returns \<open>None\<close>; the type was one of the three, and the
  files written, in order, are those of the creator's template set: \<open>pyproject.toml\<close>,
  \<open>README.md\<close>, \<open>LICENSE\<close>, then the stub file or files of the package, then \<open>__init__.py\<close>.
\<close>

theorem build_returns_none:
  assumes ok: "create_project_structure str_lower out
                 (mk_info ty name version description author_name author_email homepage) w = (Inr r, w')"
  shows "r = PyNone \<and>
         (\<exists>c. creators_get ty = Inr c \<and>
              written w' = written w @
                map fst (template_set str_lower c (out @ [name]) name version description author_name author_email homepage))"
proof -
  let ?b = "out @ [name]"
  let ?info = "mk_info ty name version description author_name author_email homepage"
  from ok obtain w1 c w2 where
    mk: "path_mkdir True True ?b w = (Inr (), w1)" and
    c: "creators_get ty = Inr c" and
    cr: "creator_create str_lower c ?b ?info w1 = (Inr (), w2)" and
    fin: "r = PyNone" "w' = w2\<lparr>console := console w2 @ [ResultShown ?b name]\<rparr>"
    by (auto simp: create_project_structure_def dict_get_mk_info Let_def path_join_def io_bind_Inr
        display_result_def console_print_def io_return_def)
  let ?plan = "template_set str_lower c ?b name version description author_name author_email homepage"
  from cr obtain w3 where
    m3: "path_mkdir False False (?b @ [package_identifier_spec name]) w1 = (Inr (), w3)" and
    wa: "write_all ?plan w3 = (Inr (), w2)"
    by (auto simp: creator_create_plan io_bind_Inr path_join_def)
  from path_mkdir_frame [OF mk] have "written w1 = written w" by simp
  moreover from path_mkdir_frame [OF m3] have "written w3 = written w1" by simp
  moreover from write_all_Inr [OF wa] have "written w2 = written w3 @ map fst ?plan"
    by simp
  ultimately have "written w' = written w @ map fst ?plan"
    using fin by simp
  with c fin show ?thesis by simp
qed

text \<open>The successful build of the module project \<open>proj\<close> and the five paths it wrote.\<close>

theorem build_returns_none_witness:
  "create_project_structure ascii_lower [] (mk_info ''module'' ''proj'' ''1.0.0'' ''d'' ''a'' ''e'' ''h'') used_world =
     (Inr PyNone,
      used_world\<lparr>files := apply_writes ((files used_world)([''proj''] \<mapsto> Dir, [''proj'', ''proj''] \<mapsto> Dir))
            (template_set ascii_lower ModuleCreator [''proj''] ''proj'' ''1.0.0'' ''d'' ''a'' ''e'' ''h''),
          written := map fst (template_set ascii_lower ModuleCreator [''proj''] ''proj'' ''1.0.0'' ''d'' ''a'' ''e'' ''h''),
          console := [ResultShown [''proj''] ''proj'']\<rparr>) \<and>
   creators_get ''module'' = Inr ModuleCreator \<and>
   map fst (template_set ascii_lower ModuleCreator [''proj''] ''proj'' ''1.0.0'' ''d'' ''a'' ''e'' ''h'') =
     [[''proj'', ''pyproject.toml''], [''proj'', ''README.md''], [''proj'', ''LICENSE''],
      [''proj'', ''proj'', ''Core.py''], [''proj'', ''proj'', ''__init__.py'']]"
  using build_returns_none [OF build_on_used_world [of ascii_lower]]
  by (simp add: build_on_used_world package_identifier_spec_def creators_get_simps)

text \<open>
  C9: for each of the three creators, the symbol the package \<open>__init__\<close> imports is the
  symbol the manifest's entry-point target names after the colon: \<open>Main\<close> for a module,
  \<open>cli_register\<close> for a CLI, the short name (the adapter class) for an adapter. This holds
  of the contents the creator generates, and of the files it leaves: whenever a creator
  succeeds, \<open>pyproject.toml\<close> in the base directory ends with the entry-point table naming
  that symbol, \<open>__init__.py\<close> in the package directory imports that symbol from the stub
  module, and the stub file of that module is there and holds the line that defines it.
\<close>

theorem init_imports_entry_symbol:
  "(\<exists>head. creator_pyproject_content str_lower c
       (mk_info ty name version description author_name author_email homepage) =
      Inr (head @ registration_entry (entry_group c) (entry_key_spec str_lower c name)
                    (package_identifier_spec name @ '':'' @ entry_symbol_spec c name))) \<and>
   creator_init_content c (mk_info ty name version description author_name author_email homepage) =
      Inr (''from .'' @ stub_module c @ '' import '' @ entry_symbol_spec c name) \<and>
   (creator_create str_lower c base_dir
      (mk_info ty name version description author_name author_email homepage) w = (Inr u, w') \<longrightarrow>
    (\<exists>head. files w' (path_join base_dir ''pyproject.toml'') =
       Some (File (head @ registration_entry (entry_group c) (entry_key_spec str_lower c name)
                    (package_identifier_spec name @ '':'' @ entry_symbol_spec c name)))) \<and>
    files w' (path_join (path_join base_dir (package_identifier_spec name)) ''__init__.py'') =
       Some (File (''from .'' @ stub_module c @ '' import '' @ entry_symbol_spec c name)) \<and>
    (\<exists>pre post.
       files w' (path_join (path_join base_dir (package_identifier_spec name))
                   (stub_module c @ ''.py'')) =
       Some (File (pre @ symbol_definition c name @ post))))"
proof -
  have contents:
    "(\<exists>head. creator_pyproject_content str_lower c
         (mk_info ty name version description author_name author_email homepage) =
        Inr (head @ registration_entry (entry_group c) (entry_key_spec str_lower c name)
                      (package_identifier_spec name @ '':'' @ entry_symbol_spec c name))) \<and>
     creator_init_content c (mk_info ty name version description author_name author_email homepage) =
        Inr (''from .'' @ stub_module c @ '' import '' @ entry_symbol_spec c name)"
    using creator_pyproject_tail [of str_lower c ty name version description author_name author_email homepage]
    by (cases c)
       (auto simp: ModuleCreator_init_content_def CLICreator_init_content_def
          AdapterCreator_init_content_def dict_get_mk_info short_of_spec)
  have written:
    "(\<exists>head. files w' (path_join base_dir ''pyproject.toml'') =
       Some (File (head @ registration_entry (entry_group c) (entry_key_spec str_lower c name)
                    (package_identifier_spec name @ '':'' @ entry_symbol_spec c name)))) \<and>
     files w' (path_join (path_join base_dir (package_identifier_spec name)) ''__init__.py'') =
       Some (File (''from .'' @ stub_module c @ '' import '' @ entry_symbol_spec c name)) \<and>
     (\<exists>pre post.
       files w' (path_join (path_join base_dir (package_identifier_spec name))
                   (stub_module c @ ''.py'')) =
       Some (File (pre @ symbol_definition c name @ post)))"
    if ok: "creator_create str_lower c base_dir
      (mk_info ty name version description author_name author_email homepage) w = (Inr u, w')"
  proof -
    from template_set_manifest [of base_dir c str_lower name version description
        author_name author_email homepage]
    obtain head where
      "(path_join base_dir ''pyproject.toml'',
        head @ registration_entry (entry_group c) (entry_key_spec str_lower c name)
                 (package_identifier_spec name @ '':'' @ entry_symbol_spec c name))
       \<in> set (template_set str_lower c base_dir name version description
                 author_name author_email homepage)"
      by blast
    from creator_create_Inr_file [OF ok this]
    have m: "\<exists>head. files w' (path_join base_dir ''pyproject.toml'') =
       Some (File (head @ registration_entry (entry_group c) (entry_key_spec str_lower c name)
                    (package_identifier_spec name @ '':'' @ entry_symbol_spec c name)))"
      by blast
    from creator_create_Inr_file [OF ok template_set_init]
    have i: "files w' (path_join (path_join base_dir (package_identifier_spec name)) ''__init__.py'') =
       Some (File (''from .'' @ stub_module c @ '' import '' @ entry_symbol_spec c name))" .
    from template_set_stub [of base_dir name c str_lower version description
        author_name author_email homepage]
    obtain pre post where
      "(path_join (path_join base_dir (package_identifier_spec name)) (stub_module c @ ''.py''),
        pre @ symbol_definition c name @ post)
       \<in> set (template_set str_lower c base_dir name version description
                 author_name author_email homepage)"
      by blast
    from creator_create_Inr_file [OF ok this]
    have s: "\<exists>pre post.
       files w' (path_join (path_join base_dir (package_identifier_spec name))
                   (stub_module c @ ''.py'')) =
       Some (File (pre @ symbol_definition c name @ post))"
      by blast
    from m i s show ?thesis by blast
  qed
  from contents written show ?thesis by blast
qed

text \<open>
  The adapter creator for \<open>Foo-Bar\<close> in the user's \<open>proj/\<close>: manifest, \<open>__init__.py\<close> and
  \<open>Core.py\<close> all name the class \<open>Bar\<close>.
\<close>

theorem init_imports_entry_symbol_witness:
  "fst (creator_create ascii_lower AdapterCreator [''proj'']
          (mk_info ''adapter'' ''Foo-Bar'' ''1.0.0'' ''d'' ''a'' ''e'' ''h'') used_world) = Inr () \<and>
   (\<exists>head. files (snd (creator_create ascii_lower AdapterCreator [''proj'']
          (mk_info ''adapter'' ''Foo-Bar'' ''1.0.0'' ''d'' ''a'' ''e'' ''h'') used_world))
        [''proj'', ''pyproject.toml''] =
      Some (File (head @ registration_entry ''adapter'' ''Bar'' ''Foo_Bar:Bar''))) \<and>
   files (snd (creator_create ascii_lower AdapterCreator [''proj'']
          (mk_info ''adapter'' ''Foo-Bar'' ''1.0.0'' ''d'' ''a'' ''e'' ''h'') used_world))
        [''proj'', ''Foo_Bar'', ''__init__.py''] = Some (File ''from .Core import Bar'') \<and>
   (\<exists>pre post. files (snd (creator_create ascii_lower AdapterCreator [''proj'']
          (mk_info ''adapter'' ''Foo-Bar'' ''1.0.0'' ''d'' ''a'' ''e'' ''h'') used_world))
        [''proj'', ''Foo_Bar'', ''Core.py''] =
      Some (File (pre @ ''class Bar(BaseAdapter):'' @ post)))"
proof -
  let ?run = "creator_create ascii_lower AdapterCreator [''proj'']
          (mk_info ''adapter'' ''Foo-Bar'' ''1.0.0'' ''d'' ''a'' ''e'' ''h'') used_world"
  have f: "fst ?run = Inr ()"
    unfolding adapter_on_used_world by simp
  then have ok: "?run = (Inr (), snd ?run)"
    by (metis prod.collapse)
  have s: "short_name_spec ''Foo-Bar'' = ''Bar''" "package_identifier_spec ''Foo-Bar'' = ''Foo_Bar''"
    by (simp_all add: short_name_spec_def package_identifier_spec_def)
  note init_imports_entry_symbol [of ascii_lower AdapterCreator "''adapter''" "''Foo-Bar''" "''1.0.0''"
      "''d''" "''a''" "''e''" "''h''" "[''proj'']" used_world "()" "snd ?run",
      THEN conjunct2, THEN conjunct2, THEN mp, OF ok]
  then have "(\<exists>head. files (snd ?run) [''proj'', ''pyproject.toml''] =
      Some (File (head @ registration_entry ''adapter'' ''Bar'' ''Foo_Bar:Bar''))) \<and>
    files (snd ?run) [''proj'', ''Foo_Bar'', ''__init__.py''] = Some (File ''from .Core import Bar'') \<and>
    (\<exists>pre post. files (snd ?run) [''proj'', ''Foo_Bar'', ''Core.py''] =
      Some (File (pre @ ''class Bar(BaseAdapter):'' @ post)))"
    by (simp add: path_join_def s)
  with f show ?thesis by (rule conjI)
qed

text \<open>
  C10: for each creator and every ProjectInfo, if the package subdirectory path (base
  directory / package identifier) already exists when the creator runs, the creator fails
  with the error of its \<open>mkdir\<close> of that path and leaves the world as it was: nothing is
  written. When the base directory is a directory, the error is FileExistsError.
\<close>

theorem existing_package_dir_stops_creator:
  assumes "files w (base_dir @ [package_of name]) \<noteq> None"
  shows "\<exists>e. creator_create str_lower c base_dir
               (mk_info ty name version description author_name author_email homepage) w = (Inl e, w) \<and>
             path_mkdir False False (base_dir @ [package_of name]) w = (Inl e, w) \<and>
             (is_dir (files w) base_dir \<longrightarrow> e = FileExistsError (base_dir @ [package_of name]))"
  using assms by (rule creator_create_existing)

text \<open>The adapter creator in a \<open>proj/\<close> that already holds \<open>proj/proj\<close>.\<close>

theorem existing_package_dir_stops_creator_witness:
  "files built_world ([''proj''] @ [package_of ''proj'']) \<noteq> None \<and>
   is_dir (files built_world) [''proj''] \<and>
   creator_create ascii_lower AdapterCreator [''proj''] (mk_info ''adapter'' ''proj'' ''1.0.0'' ''d'' ''a'' ''e'' ''h'') built_world =
     (Inl (FileExistsError [''proj'', ''proj'']), built_world)"
proof -
  have h: "files built_world ([''proj''] @ [package_of ''proj'']) \<noteq> None"
    by (simp add: built_world_def package_of_def)
  have d: "is_dir (files built_world) [''proj'']"
    by (simp add: built_world_def is_dir_def)
  from existing_package_dir_stops_creator [OF h, of ascii_lower AdapterCreator "''adapter''" "''1.0.0''" "''d''" "''a''" "''e''" "''h''"] h d
  show ?thesis by (auto simp: package_of_def)
qed

end
